theory Spec2Isabelle
  imports Complex_Main
begin

section \<open>Python exceptions\<close>

text \<open>
  Every \<^verbatim>\<open>raise\<close>, failed \<^verbatim>\<open>assert\<close> and failed attribute or name lookup of the
  source is a value of this type; a function that can fail returns \<open>pyerror + 'a\<close>,
  with \<open>Inl\<close> for the exception. \<open>NameError\<close> stands for the class and its subclass
  \<^verbatim>\<open>UnboundLocalError\<close> (what Python raises for a local variable read before it is
  bound); \<open>RuntimeError\<close> is what the tensor library raises on a shape mismatch or
  on the maximum of an empty tensor.
\<close>

datatype pyerror = AssertionError | AttributeError | NameError | RuntimeError | IndexError

section \<open>The linear token-classification head (espnet2/nlu/token\_classification.py)\<close>

text \<open>
  A float tensor of shape \<^verbatim>\<open>[Batch, T, F]\<close> is a list (batch) of lists (time) of
  frames, a frame being the list of its \<open>F\<close> features. Floating-point numbers are
  idealised as reals. \<^verbatim>\<open>torch.nn.Linear(in, out)\<close> holds a weight matrix of shape
  \<^verbatim>\<open>(out, in)\<close> and a bias of shape \<^verbatim>\<open>(out)\<close>; their initial values are drawn by
  the library and are parameters \<open>w0\<close>, \<open>b0\<close> of the constructor here.
\<close>

record Linear =
  in_features :: nat
  out_features :: nat
  weight :: "real list list"
  bias :: "real list"

definition Linear_init :: "(nat \<Rightarrow> nat \<Rightarrow> real) \<Rightarrow> (nat \<Rightarrow> real) \<Rightarrow> nat \<Rightarrow> nat \<Rightarrow> Linear" where
  "Linear_init w0 b0 n_in n_out =
     \<lparr>in_features = n_in, out_features = n_out,
      weight = map (\<lambda>i. map (w0 i) [0..<n_in]) [0..<n_out],
      bias = map b0 [0..<n_out]\<rparr>"

definition dot :: "real list \<Rightarrow> real list \<Rightarrow> real" where
  "dot w x = sum_list (map2 (*) w x)"

definition affine :: "Linear \<Rightarrow> real list \<Rightarrow> real list" where
  "affine l x = map2 (\<lambda>w b. dot w x + b) (weight l) (bias l)"

definition Linear_forward :: "Linear \<Rightarrow> real list list list \<Rightarrow> pyerror + real list list list" where
  "Linear_forward l input =
     (if list_all (list_all (\<lambda>x. length x = in_features l)) input
      then Inr (map (map (affine l)) input)
      else Inl RuntimeError)"

record LinearDecoder =
  priv_num_labels :: nat
  linear_decoder :: Linear

definition LinearDecoder_init ::
  "(nat \<Rightarrow> nat \<Rightarrow> real) \<Rightarrow> (nat \<Rightarrow> real) \<Rightarrow> nat \<Rightarrow> nat option \<Rightarrow> LinearDecoder" where
  "LinearDecoder_init w0 b0 encoder_output_size num_labels_arg =
     (let num_labels = (case num_labels_arg of None \<Rightarrow> 2 | Some n \<Rightarrow> n)
      in \<lparr>priv_num_labels = num_labels,
          linear_decoder = Linear_init w0 b0 encoder_output_size num_labels\<rparr>)"

definition LinearDecoder_forward ::
  "LinearDecoder \<Rightarrow> real list list list \<Rightarrow> int list \<Rightarrow> pyerror + real list list list" where
  "LinearDecoder_forward d input ilens = Linear_forward (linear_decoder d) input"

definition num_labels :: "LinearDecoder \<Rightarrow> nat" where
  "num_labels d = priv_num_labels d"

section \<open>Numbers, scalar tensors and token tensors\<close>

text \<open>
  The numbers the loss composition computes with are dynamically typed in the source: a
  Python \<^verbatim>\<open>int\<close>, a Python \<^verbatim>\<open>float\<close>, a zero-dimensional float tensor
  (\<open>Tensor v g\<close>: its value, and whether it is attached to the autograd graph) or an
  integer tensor. Arithmetic follows Python's and the tensor library's promotion: two
  integral operands stay integral, a tensor operand makes the result a tensor, and the
  result is attached to the graph when an operand is. Floats are idealised as reals.
\<close>

datatype pynum = PyInt int | PyFloat real | Tensor real bool | LongTensor int

fun num_val :: "pynum \<Rightarrow> real" where
  "num_val (PyInt i) = of_int i"
| "num_val (PyFloat x) = x"
| "num_val (Tensor v g) = v"
| "num_val (LongTensor i) = of_int i"

fun int_val :: "pynum \<Rightarrow> int" where
  "int_val (PyInt i) = i"
| "int_val (LongTensor i) = i"
| "int_val (PyFloat x) = 0"
| "int_val (Tensor v g) = 0"

fun is_integral :: "pynum \<Rightarrow> bool" where
  "is_integral (PyInt i) = True"
| "is_integral (LongTensor i) = True"
| "is_integral (PyFloat x) = False"
| "is_integral (Tensor v g) = False"

fun is_tensor :: "pynum \<Rightarrow> bool" where
  "is_tensor (Tensor v g) = True"
| "is_tensor (LongTensor i) = True"
| "is_tensor (PyInt i) = False"
| "is_tensor (PyFloat x) = False"

fun is_float :: "pynum \<Rightarrow> bool" where
  "is_float (PyFloat x) = True"
| "is_float (PyInt i) = False"
| "is_float (Tensor v g) = False"
| "is_float (LongTensor i) = False"

fun attached :: "pynum \<Rightarrow> bool" where
  "attached (Tensor v g) = g"
| "attached (PyInt i) = False"
| "attached (PyFloat x) = False"
| "attached (LongTensor i) = False"

definition py_binop :: "(real \<Rightarrow> real \<Rightarrow> real) \<Rightarrow> (int \<Rightarrow> int \<Rightarrow> int) \<Rightarrow> pynum \<Rightarrow> pynum \<Rightarrow> pynum" where
  "py_binop fr fi x y =
     (if is_integral x \<and> is_integral y then
        (if is_tensor x \<or> is_tensor y then LongTensor (fi (int_val x) (int_val y))
         else PyInt (fi (int_val x) (int_val y)))
      else if is_tensor x \<or> is_tensor y then
        Tensor (fr (num_val x) (num_val y)) (attached x \<or> attached y)
      else PyFloat (fr (num_val x) (num_val y)))"

definition py_mul :: "pynum \<Rightarrow> pynum \<Rightarrow> pynum" where
  "py_mul = py_binop (*) (*)"

definition py_add :: "pynum \<Rightarrow> pynum \<Rightarrow> pynum" where
  "py_add = py_binop (+) (+)"

definition py_sub :: "pynum \<Rightarrow> pynum \<Rightarrow> pynum" where
  "py_sub = py_binop (-) (-)"

text \<open>\<^verbatim>\<open>x.detach()\<close>: only a tensor has the method.\<close>

fun detach :: "pynum \<Rightarrow> pyerror + pynum" where
  "detach (Tensor v g) = Inr (Tensor v False)"
| "detach (LongTensor i) = Inr (LongTensor i)"
| "detach (PyInt i) = Inl AttributeError"
| "detach (PyFloat x) = Inl AttributeError"

text \<open>
  A float tensor of shape \<^verbatim>\<open>(Batch, Length, ...)\<close> is a list of rows of frames of an
  unspecified type \<open>'a\<close>; a token tensor \<^verbatim>\<open>(Batch, Length)\<close> is a list of rows of
  token ids; a length tensor \<^verbatim>\<open>(Batch,)\<close> is a list of integers, so that its
  \<^verbatim>\<open>dim()\<close> is 1 by type. A scalar loss a sub-module returns is a value and its
  attachment to the autograd graph.
\<close>

type_synonym 'a tensor = "'a list list"
type_synonym tokens = "int list list"
type_synonym lens = "int list"
type_synonym scalar = "real \<times> bool"

definition bindE :: "pyerror + 'b \<Rightarrow> ('b \<Rightarrow> pyerror + 'c) \<Rightarrow> pyerror + 'c" where
  "bindE r f = (case r of Inl e \<Rightarrow> Inl e | Inr v \<Rightarrow> f v)"

text \<open>\<^verbatim>\<open>t.max()\<close> of a length tensor; the library raises on an empty tensor.\<close>

definition tensor_max :: "lens \<Rightarrow> pyerror + int" where
  "tensor_max ls = (case ls of [] \<Rightarrow> Inl RuntimeError | l # ls' \<Rightarrow> Inr (fold max ls' l))"

text \<open>\<^verbatim>\<open>row[:n]\<close>, a negative \<open>n\<close> counting from the end, and \<^verbatim>\<open>t[:, :n]\<close>.\<close>

definition slice_to :: "int \<Rightarrow> 'b list \<Rightarrow> 'b list" where
  "slice_to n row = (if 0 \<le> n then take (nat n) row else take (length row - nat (- n)) row)"

definition slice_cols :: "'b list list \<Rightarrow> int \<Rightarrow> 'b list list" where
  "slice_cols t n = map (slice_to n) t"

definition size0 :: "'b list list \<Rightarrow> nat" where
  "size0 t = length t"

definition size1 :: "'b list list \<Rightarrow> nat" where
  "size1 t = (case t of [] \<Rightarrow> 0 | row # _ \<Rightarrow> length row)"

text \<open>\<^verbatim>\<open>lens + 1\<close> on a length tensor.\<close>

definition plus1 :: "lens \<Rightarrow> lens" where
  "plus1 ls = map (\<lambda>n. n + 1) ls"

section \<open>The multi-decoder ST model (espnet2/st/espnet\_model\_md\_samp.py)\<close>

subsection \<open>What the model is built from\<close>

text \<open>
  The sub-modules and library functions the class calls are not part of the two source
  files; they are parameters, so that every theorem holds whatever they compute. A
  sub-module is the function its \<^verbatim>\<open>forward\<close> computes; outputs the source discards
  (an unused third result of an encoder, the second result of a decoder) are left out.
  The ST decoder takes the speech encoder output as an optional fifth argument, as the
  two call shapes in \<^verbatim>\<open>_calc_mt_att_loss\<close> do. The ASR decoder is called with
  \<^verbatim>\<open>return_hidden=True\<close> and returns its output and its hidden states.
\<close>

datatype str_seq = PyTuple "string list" | PyList "string list"

text \<open>\<^verbatim>\<open>seq.copy()\<close>: a list has the method, a tuple does not.\<close>

fun seq_copy :: "str_seq \<Rightarrow> pyerror + str_seq" where
  "seq_copy (PyList xs) = Inr (PyList xs)"
| "seq_copy (PyTuple xs) = Inl AttributeError"

type_synonym 'a layer = "'a tensor \<Rightarrow> lens \<Rightarrow> 'a tensor \<times> lens"

record 'a CTC =
  ctc_forward :: "'a tensor \<Rightarrow> lens \<Rightarrow> tokens \<Rightarrow> lens \<Rightarrow> scalar"
  ctc_argmax :: "'a tensor \<Rightarrow> tokens"

record ASRErrorCalculator_obj =
  asr_calc :: "tokens \<Rightarrow> tokens \<Rightarrow> real option \<times> real option"
  asr_calc_ctc :: "tokens \<Rightarrow> tokens \<Rightarrow> real option"

record 'a extern =
  add_sos_eos :: "tokens \<Rightarrow> int \<Rightarrow> int \<Rightarrow> int \<Rightarrow> tokens \<times> tokens"
  th_accuracy :: "'a list \<Rightarrow> tokens \<Rightarrow> int \<Rightarrow> real"
  view2 :: "'a tensor \<Rightarrow> int \<Rightarrow> 'a list"
  argmax_last :: "'a tensor \<Rightarrow> tokens"
  LabelSmoothingLoss :: "int \<Rightarrow> int \<Rightarrow> real \<Rightarrow> bool \<Rightarrow> 'a tensor \<Rightarrow> tokens \<Rightarrow> scalar"
  MTErrorCalculator :: "str_seq \<Rightarrow> string \<Rightarrow> string \<Rightarrow> bool \<Rightarrow> tokens \<Rightarrow> tokens \<Rightarrow> real option"
  ASRErrorCalculator :: "str_seq \<Rightarrow> string \<Rightarrow> string \<Rightarrow> bool \<Rightarrow> bool \<Rightarrow> ASRErrorCalculator_obj"

subsection \<open>The constructor\<close>

text \<open>
  The constructor's arguments, in the order of its signature. The argument types are the
  annotated ones, so \<^verbatim>\<open>check_argument_types()\<close> holds for every value of this record
  and the \<^verbatim>\<open>is not None\<close> assertions on \<^verbatim>\<open>asr_decoder\<close> and \<^verbatim>\<open>src_token_list\<close>
  cannot fail.
\<close>

record 'a init_args =
  arg_vocab_size :: int
  arg_token_list :: str_seq
  arg_frontend :: "'a layer option"
  arg_specaug :: "'a layer option"
  arg_normalize :: "'a layer option"
  arg_preencoder :: "'a layer option"
  arg_encoder :: "'a layer"
  arg_encoder_mt :: "'a layer"
  arg_postencoder :: "'a layer option"
  arg_decoder :: "'a tensor \<Rightarrow> lens \<Rightarrow> tokens \<Rightarrow> lens \<Rightarrow> ('a tensor \<times> lens) option \<Rightarrow> 'a tensor"
  arg_asr_decoder :: "'a tensor \<Rightarrow> lens \<Rightarrow> tokens \<Rightarrow> lens \<Rightarrow> 'a tensor \<times> 'a tensor"
  arg_ctc :: "'a CTC"
  arg_src_vocab_size :: int
  arg_src_token_list :: str_seq
  arg_asr_weight :: real
  arg_mt_weight :: real
  arg_mtlalpha :: real
  arg_ctc_sample_rate :: real
  arg_ignore_id :: int
  arg_lsm_weight :: real
  arg_length_normalized_loss :: bool
  arg_report_cer :: bool
  arg_report_wer :: bool
  arg_report_bleu :: bool
  arg_sym_space :: string
  arg_sym_blank :: string
  arg_extract_feats_in_collect_stats :: bool
  arg_speech_attn :: bool

text \<open>
  The attributes of an instance. \<open>ctc\<close> is \<open>None\<close> when the instance has no such
  attribute; \<open>training\<close> is the mode flag of \<^verbatim>\<open>torch.nn.Module\<close>, true after
  construction and set by \<^verbatim>\<open>train(mode)\<close>.
\<close>

record 'a model =
  sos :: int
  eos :: int
  src_sos :: int
  src_eos :: int
  vocab_size :: int
  src_vocab_size :: int
  ignore_id :: int
  asr_weight :: real
  mt_weight :: real
  mtlalpha :: real
  ctc_sample_rate :: real
  token_list :: str_seq
  src_token_list :: str_seq
  speech_attn :: bool
  frontend :: "'a layer option"
  specaug :: "'a layer option"
  normalize_layer :: "'a layer option"
  preencoder :: "'a layer option"
  postencoder :: "'a layer option"
  encoder :: "'a layer"
  encoder_mt :: "'a layer"
  decoder :: "'a tensor \<Rightarrow> lens \<Rightarrow> tokens \<Rightarrow> lens \<Rightarrow> ('a tensor \<times> lens) option \<Rightarrow> 'a tensor"
  criterion_st :: "'a tensor \<Rightarrow> tokens \<Rightarrow> scalar"
  criterion_asr :: "'a tensor \<Rightarrow> tokens \<Rightarrow> scalar"
  ctc :: "'a CTC option"
  asr_decoder :: "'a tensor \<Rightarrow> lens \<Rightarrow> tokens \<Rightarrow> lens \<Rightarrow> 'a tensor \<times> 'a tensor"
  mt_error_calculator :: "(tokens \<Rightarrow> tokens \<Rightarrow> real option) option"
  asr_error_calculator :: "ASRErrorCalculator_obj option"
  extract_feats_in_collect_stats :: bool
  training :: bool

definition ESPnetSTMDSampModel_init :: "'a extern \<Rightarrow> 'a init_args \<Rightarrow> pyerror + 'a model" where
  "ESPnetSTMDSampModel_init ext a =
     (if \<not> (0 < arg_asr_weight a \<and> arg_asr_weight a < 1) then Inl AssertionError
      else if \<not> (0 \<le> arg_mt_weight a \<and> arg_mt_weight a < 1) then Inl AssertionError
      else if \<not> (0 \<le> arg_mtlalpha a \<and> arg_mtlalpha a < 1) then Inl AssertionError
      else
        bindE (seq_copy (arg_token_list a)) (\<lambda>token_list_copy.
        bindE (seq_copy (arg_src_token_list a)) (\<lambda>src_token_list_copy.
        Inr \<lparr>sos = arg_vocab_size a - 1,
             eos = arg_vocab_size a - 1,
             src_sos = arg_src_vocab_size a - 1,
             src_eos = arg_src_vocab_size a - 1,
             vocab_size = arg_vocab_size a,
             src_vocab_size = arg_src_vocab_size a,
             ignore_id = arg_ignore_id a,
             asr_weight = arg_asr_weight a,
             mt_weight = arg_mt_weight a,
             mtlalpha = arg_mtlalpha a,
             ctc_sample_rate = arg_ctc_sample_rate a,
             token_list = token_list_copy,
             src_token_list = src_token_list_copy,
             speech_attn = arg_speech_attn a,
             frontend = arg_frontend a,
             specaug = arg_specaug a,
             normalize_layer = arg_normalize a,
             preencoder = arg_preencoder a,
             postencoder = arg_postencoder a,
             encoder = arg_encoder a,
             encoder_mt = arg_encoder_mt a,
             decoder = arg_decoder a,
             criterion_st = LabelSmoothingLoss ext (arg_vocab_size a) (arg_ignore_id a)
                              (arg_lsm_weight a) (arg_length_normalized_loss a),
             criterion_asr = LabelSmoothingLoss ext (arg_src_vocab_size a) (arg_ignore_id a)
                              (arg_lsm_weight a) (arg_length_normalized_loss a),
             ctc = (if arg_mtlalpha a > 0 then Some (arg_ctc a) else None),
             asr_decoder = arg_asr_decoder a,
             mt_error_calculator =
               (if arg_report_bleu a
                then Some (MTErrorCalculator ext (arg_token_list a) (arg_sym_space a)
                             (arg_sym_blank a) (arg_report_bleu a))
                else None),
             asr_error_calculator =
               (if arg_report_cer a \<or> arg_report_wer a
                then Some (ASRErrorCalculator ext (arg_src_token_list a) (arg_sym_space a)
                             (arg_sym_blank a) (arg_report_cer a) (arg_report_wer a))
                else None),
             extract_feats_in_collect_stats = arg_extract_feats_in_collect_stats a,
             training = True\<rparr>)))"

text \<open>
  A call that passes the twelve required arguments and leaves every other parameter at
  the default value of the signature.
\<close>

definition default_args ::
  "int \<Rightarrow> str_seq \<Rightarrow> 'a layer option \<Rightarrow> 'a layer option \<Rightarrow> 'a layer option \<Rightarrow> 'a layer option \<Rightarrow>
   'a layer \<Rightarrow> 'a layer \<Rightarrow> 'a layer option \<Rightarrow>
   ('a tensor \<Rightarrow> lens \<Rightarrow> tokens \<Rightarrow> lens \<Rightarrow> ('a tensor \<times> lens) option \<Rightarrow> 'a tensor) \<Rightarrow>
   ('a tensor \<Rightarrow> lens \<Rightarrow> tokens \<Rightarrow> lens \<Rightarrow> 'a tensor \<times> 'a tensor) \<Rightarrow> 'a CTC \<Rightarrow> 'a init_args" where
  "default_args vsize toks fe sa nrm pre enc enc_mt post dec asr_dec c =
     \<lparr>arg_vocab_size = vsize, arg_token_list = toks, arg_frontend = fe, arg_specaug = sa,
      arg_normalize = nrm, arg_preencoder = pre, arg_encoder = enc, arg_encoder_mt = enc_mt,
      arg_postencoder = post, arg_decoder = dec, arg_asr_decoder = asr_dec, arg_ctc = c,
      arg_src_vocab_size = 0, arg_src_token_list = PyList [],
      arg_asr_weight = 0, arg_mt_weight = 0, arg_mtlalpha = 0, arg_ctc_sample_rate = 0,
      arg_ignore_id = - 1, arg_lsm_weight = 0, arg_length_normalized_loss = False,
      arg_report_cer = True, arg_report_wer = True, arg_report_bleu = True,
      arg_sym_space = ''<space>'', arg_sym_blank = ''<blank>'',
      arg_extract_feats_in_collect_stats = True, arg_speech_attn = False\<rparr>"

definition train :: "bool \<Rightarrow> 'a model \<Rightarrow> 'a model" where
  "train mode m = m\<lparr>training := mode\<rparr>"

subsection \<open>Frontend and encoder\<close>

definition extract_feats :: "'a model \<Rightarrow> 'a tensor \<Rightarrow> lens \<Rightarrow> pyerror + 'a tensor \<times> lens" where
  "extract_feats m speech speech_lengths =
     bindE (tensor_max speech_lengths) (\<lambda>max_len.
     let speech1 = slice_cols speech max_len
     in case frontend m of
          Some fe \<Rightarrow> Inr (fe speech1 speech_lengths)
        | None \<Rightarrow> Inr (speech1, speech_lengths))"

definition apply_opt :: "'a layer option \<Rightarrow> 'a tensor \<times> lens \<Rightarrow> 'a tensor \<times> lens" where
  "apply_opt layer x = (case layer of None \<Rightarrow> x | Some f \<Rightarrow> f (fst x) (snd x))"

definition encode :: "'a model \<Rightarrow> 'a tensor \<Rightarrow> lens \<Rightarrow> pyerror + 'a tensor \<times> lens" where
  "encode m speech speech_lengths =
     bindE (extract_feats m speech speech_lengths) (\<lambda>feats0.
     let feats1 = (if specaug m \<noteq> None \<and> training m then apply_opt (specaug m) feats0 else feats0);
         feats2 = apply_opt (normalize_layer m) feats1;
         feats3 = apply_opt (preencoder m) feats2;
         enc0 = encoder m (fst feats3) (snd feats3);
         enc1 = apply_opt (postencoder m) enc0
     in if size0 (fst enc1) \<noteq> size0 speech then Inl AssertionError
        else bindE (tensor_max (snd enc1)) (\<lambda>max_len.
             if \<not> (int (size1 (fst enc1)) \<le> max_len) then Inl AssertionError
             else Inr enc1))"

subsection \<open>The self-generated transcript (lines 202 to 210 of forward)\<close>

text \<open>
  \<^verbatim>\<open>[x[0] for x in groupby(ys)]\<close>: \<^verbatim>\<open>itertools.groupby\<close> opens a group at an element
  and extends it while the next elements equal the group's key; the comprehension keeps
  the key of each group.
\<close>

function groupby_keys :: "'b list \<Rightarrow> 'b list" where
  "groupby_keys [] = []"
| "groupby_keys (x # xs) = x # groupby_keys (dropWhile (\<lambda>y. y = x) xs)"
  by pat_completeness auto
termination
  by (relation "measure length") (auto simp: length_dropWhile_le less_Suc_eq_le)

text \<open>
  The \<^verbatim>\<open>enumerate\<close> loop: an empty hypothesis at index \<open>i\<close> is replaced by
  \<^verbatim>\<open>[x for x in src_text[i] if x != -1]\<close>; indexing \<^verbatim>\<open>src_text\<close> out of range raises.
\<close>

fun substitute_empty :: "nat \<Rightarrow> int list list \<Rightarrow> tokens \<Rightarrow> pyerror + int list list" where
  "substitute_empty i [] src_text = Inr []"
| "substitute_empty i (ys # rest) src_text =
     (if length ys = 0 then
        (if i < length src_text then
           bindE (substitute_empty (Suc i) rest src_text) (\<lambda>rest1.
           Inr (filter (\<lambda>x. x \<noteq> - 1) (src_text ! i) # rest1))
         else Inl IndexError)
      else bindE (substitute_empty (Suc i) rest src_text) (\<lambda>rest1. Inr (ys # rest1)))"

text \<open>
  \<^verbatim>\<open>pad_sequence(seqs, batch_first=True, padding_value=pv)\<close> of the tensor library:
  every sequence is extended on the right to the longest length; an empty list of
  sequences is refused.
\<close>

definition pad_sequence :: "int list list \<Rightarrow> int \<Rightarrow> pyerror + tokens" where
  "pad_sequence seqs pv =
     (if seqs = [] then Inl RuntimeError
      else let max_len = fold max (map length seqs) 0
           in Inr (map (\<lambda>s. s @ replicate (max_len - length s) pv) seqs))"

definition ctc_sample :: "tokens \<Rightarrow> tokens \<Rightarrow> pyerror + tokens \<times> lens" where
  "ctc_sample ys_argmax src_text =
     (let ys_hat1 = map groupby_keys ys_argmax;
          ys_hat2 = map (filter (\<lambda>x. x \<noteq> 0)) ys_hat1
      in bindE (substitute_empty 0 ys_hat2 src_text) (\<lambda>ys_hat3.
         let ys_hat_lens = map (\<lambda>x. int (length x)) ys_hat3
         in bindE (pad_sequence ys_hat3 (- 1)) (\<lambda>ys_hat. Inr (ys_hat, ys_hat_lens))))"

subsection \<open>The three partial losses\<close>

definition calc_mt_att_loss ::
  "'a extern \<Rightarrow> 'a model \<Rightarrow> 'a tensor \<Rightarrow> lens \<Rightarrow> tokens \<Rightarrow> lens \<Rightarrow> 'a tensor \<Rightarrow> lens \<Rightarrow>
   pynum \<times> real \<times> real option" where
  "calc_mt_att_loss ext m encoder_out encoder_out_lens ys_pad ys_pad_lens speech speech_lens =
     (let ys_in_pad = fst (add_sos_eos ext ys_pad (sos m) (eos m) (ignore_id m));
          ys_out_pad = snd (add_sos_eos ext ys_pad (sos m) (eos m) (ignore_id m));
          ys_in_lens = plus1 ys_pad_lens;
          decoder_out =
            (if speech_attn m
             then decoder m encoder_out encoder_out_lens ys_in_pad ys_in_lens (Some (speech, speech_lens))
             else decoder m encoder_out encoder_out_lens ys_in_pad ys_in_lens None);
          loss_att = criterion_st m decoder_out ys_out_pad;
          acc_att = th_accuracy ext (view2 ext decoder_out (vocab_size m)) ys_out_pad (ignore_id m);
          bleu_att =
            (case mt_error_calculator m of
               None \<Rightarrow> None
             | Some calc \<Rightarrow> if training m then None else calc (argmax_last ext decoder_out) ys_pad)
      in (Tensor (fst loss_att) (snd loss_att), acc_att, bleu_att))"

definition calc_asr_att_loss ::
  "'a extern \<Rightarrow> 'a model \<Rightarrow> 'a tensor \<Rightarrow> lens \<Rightarrow> tokens \<Rightarrow> lens \<Rightarrow>
   pynum \<times> real \<times> real option \<times> real option \<times> 'a tensor" where
  "calc_asr_att_loss ext m encoder_out encoder_out_lens ys_pad ys_pad_lens =
     (let ys_in_pad = fst (add_sos_eos ext ys_pad (src_sos m) (src_eos m) (ignore_id m));
          ys_out_pad = snd (add_sos_eos ext ys_pad (src_sos m) (src_eos m) (ignore_id m));
          ys_in_lens = plus1 ys_pad_lens;
          decoder_out = fst (asr_decoder m encoder_out encoder_out_lens ys_in_pad ys_in_lens);
          hs_dec_asr = snd (asr_decoder m encoder_out encoder_out_lens ys_in_pad ys_in_lens);
          loss_att = criterion_asr m decoder_out ys_out_pad;
          acc_att = th_accuracy ext (view2 ext decoder_out (src_vocab_size m)) ys_out_pad (ignore_id m);
          cer_wer =
            (case asr_error_calculator m of
               None \<Rightarrow> (None, None)
             | Some calc \<Rightarrow> if training m then (None, None)
                           else asr_calc calc (argmax_last ext decoder_out) ys_pad)
      in (Tensor (fst loss_att) (snd loss_att), acc_att, fst cer_wer, snd cer_wer, hs_dec_asr))"

text \<open>\<^verbatim>\<open>self.ctc\<close>: the attribute lookup fails on an instance that never stored it.\<close>

definition get_ctc :: "'a model \<Rightarrow> pyerror + 'a CTC" where
  "get_ctc m = (case ctc m of None \<Rightarrow> Inl AttributeError | Some c \<Rightarrow> Inr c)"

definition calc_ctc_loss ::
  "'a extern \<Rightarrow> 'a model \<Rightarrow> 'a tensor \<Rightarrow> lens \<Rightarrow> tokens \<Rightarrow> lens \<Rightarrow> pyerror + pynum \<times> real option" where
  "calc_ctc_loss ext m encoder_out encoder_out_lens ys_pad ys_pad_lens =
     bindE (get_ctc m) (\<lambda>c.
     let loss_ctc = ctc_forward c encoder_out encoder_out_lens ys_pad ys_pad_lens
     in case asr_error_calculator m of
          None \<Rightarrow> Inr (Tensor (fst loss_ctc) (snd loss_ctc), None)
        | Some calc \<Rightarrow>
            if \<not> training m
            then bindE (get_ctc m) (\<lambda>c1.
                 Inr (Tensor (fst loss_ctc) (snd loss_ctc),
                      asr_calc_ctc calc (ctc_argmax c1 encoder_out) ys_pad))
            else Inr (Tensor (fst loss_ctc) (snd loss_ctc), None))"

subsection \<open>forward\<close>

text \<open>
  The local variables of \<^verbatim>\<open>forward\<close> once line 271 is reached. \<open>ys_hat\<close> holds
  \<^verbatim>\<open>ys_hat\<close> and \<^verbatim>\<open>ys_hat_lens\<close>, which are bound in the sampling branch only;
  \<open>text_cut\<close> and \<open>src_text_cut\<close> are \<^verbatim>\<open>text\<close> and \<^verbatim>\<open>src_text\<close> after the
  data-parallel truncation of lines 193 and 195.
\<close>

record 'a forward_locals =
  batch_size :: nat
  text_cut :: tokens
  src_text_cut :: tokens
  encoder_out :: "'a tensor"
  encoder_out_lens :: lens
  do_ctc_sample :: bool
  ys_hat :: "(tokens \<times> lens) option"
  loss_asr_att :: pynum
  acc_asr_att :: "real option"
  cer_asr_att :: "real option"
  wer_asr_att :: "real option"
  hs_dec_asr :: "'a tensor"
  loss_asr_ctc :: pynum
  cer_asr_ctc :: "real option"
  dec_asr_lengths :: lens
  encoder_mt_out :: "'a tensor"
  encoder_mt_out_lens :: lens
  loss_st_att :: pynum
  acc_st_att :: real
  bleu_st_att :: "real option"
  asr_ctc_weight :: real
  loss_st :: pynum
  loss_asr :: pynum
  loss :: pynum

text \<open>Lines 172 to 195: the assertions on the batch and the truncation of the texts.\<close>

definition forward_inputs ::
  "'a tensor \<Rightarrow> lens \<Rightarrow> tokens \<Rightarrow> lens \<Rightarrow> tokens option \<Rightarrow> lens option \<Rightarrow>
   pyerror + tokens \<times> tokens \<times> lens" where
  "forward_inputs speech speech_lengths text text_lengths src_text_arg src_text_lengths_arg =
     (if \<not> (size0 speech = length speech_lengths \<and> length speech_lengths = size0 text
             \<and> size0 text = length text_lengths)
      then Inl AssertionError
      else case src_text_arg of
        None \<Rightarrow> Inl AssertionError
      | Some src_text \<Rightarrow>
          (case src_text_lengths_arg of
             None \<Rightarrow> Inl AttributeError
           | Some src_text_lengths \<Rightarrow>
               if \<not> (size0 text = size0 src_text \<and> size0 src_text = length src_text_lengths)
               then Inl AssertionError
               else bindE (tensor_max text_lengths) (\<lambda>text_max.
                    bindE (tensor_max src_text_lengths) (\<lambda>src_max.
                    Inr (slice_cols text text_max, slice_cols src_text src_max, src_text_lengths)))))"

text \<open>
  Lines 201 to 231, the ASR attention decoder on the sampled or on the reference
  transcript. The result is \<^verbatim>\<open>loss_asr_att, acc_asr_att, cer_asr_att, wer_asr_att,
  hs_dec_asr\<close> and the sampled transcript when there is one.
\<close>

definition asr_branch ::
  "'a extern \<Rightarrow> 'a model \<Rightarrow> bool \<Rightarrow> 'a tensor \<Rightarrow> lens \<Rightarrow> tokens \<Rightarrow> lens \<Rightarrow>
   pyerror + pynum \<times> real option \<times> real option \<times> real option \<times> 'a tensor \<times> (tokens \<times> lens) option" where
  "asr_branch ext m sample enc enc_lens src_text src_text_lengths =
     (if training m \<and> sample then
        bindE (get_ctc m) (\<lambda>c.
        bindE (ctc_sample (ctc_argmax c enc) src_text) (\<lambda>smp.
        let r = calc_asr_att_loss ext m enc enc_lens (fst smp) (snd smp)
        in Inr (fst r, None, None, None, snd (snd (snd (snd r))), Some smp)))
      else
        let r = calc_asr_att_loss ext m enc enc_lens src_text src_text_lengths
        in Inr (fst r, Some (fst (snd r)), fst (snd (snd r)), fst (snd (snd (snd r))),
                snd (snd (snd (snd r))), None))"

text \<open>Lines 234 to 239, the CTC branch.\<close>

definition ctc_branch ::
  "'a extern \<Rightarrow> 'a model \<Rightarrow> 'a tensor \<Rightarrow> lens \<Rightarrow> tokens \<Rightarrow> lens \<Rightarrow> pyerror + pynum \<times> real option" where
  "ctc_branch ext m enc enc_lens src_text src_text_lengths =
     (if mtlalpha m > 0 then calc_ctc_loss ext m enc enc_lens src_text src_text_lengths
      else Inr (PyInt 0, None))"

text \<open>Lines 242 to 245; reading \<^verbatim>\<open>ys_hat_lens\<close> while it is unbound raises.\<close>

definition mt_input_lengths ::
  "'a model \<Rightarrow> bool \<Rightarrow> (tokens \<times> lens) option \<Rightarrow> lens \<Rightarrow> pyerror + lens" where
  "mt_input_lengths m sample smp src_text_lengths =
     (if training m \<and> sample then
        (case smp of None \<Rightarrow> Inl NameError | Some s \<Rightarrow> Inr (plus1 (snd s)))
      else Inr (plus1 src_text_lengths))"

text \<open>
  Lines 248 to 254. \<^verbatim>\<open>speech_out\<close> and \<^verbatim>\<open>speech_lens\<close> are bound under
  \<^verbatim>\<open>if self.speech_attn\<close> only, and read when the arguments of the call are evaluated.
\<close>

definition st_branch ::
  "'a extern \<Rightarrow> 'a model \<Rightarrow> 'a tensor \<Rightarrow> lens \<Rightarrow> tokens \<Rightarrow> lens \<Rightarrow> 'a tensor \<Rightarrow> lens \<Rightarrow>
   pyerror + pynum \<times> real \<times> real option" where
  "st_branch ext m enc_mt enc_mt_lens text text_lengths enc enc_lens =
     (let speech_vars = (if speech_attn m then Some (enc, enc_lens) else None)
      in case speech_vars of
           None \<Rightarrow> Inl NameError
         | Some sp \<Rightarrow> Inr (calc_mt_att_loss ext m enc_mt enc_mt_lens text text_lengths (fst sp) (snd sp)))"

text \<open>Lines 257 to 271: \<^verbatim>\<open>asr_ctc_weight\<close>, \<^verbatim>\<open>loss_asr\<close> and \<^verbatim>\<open>loss\<close>.\<close>

definition ctc_weight :: "'a model \<Rightarrow> bool \<Rightarrow> real" where
  "ctc_weight m sample = (if training m \<and> sample then 1 else mtlalpha m)"

definition combine_asr :: "real \<Rightarrow> pynum \<Rightarrow> pynum \<Rightarrow> pynum" where
  "combine_asr w l_ctc l_att =
     (if w = 0 then l_att
      else py_add (py_mul (PyFloat w) l_ctc) (py_mul (py_sub (PyInt 1) (PyFloat w)) l_att))"

definition combine_loss :: "'a model \<Rightarrow> pynum \<Rightarrow> pynum \<Rightarrow> pynum" where
  "combine_loss m l_st l_asr =
     py_add (py_mul (py_sub (PyInt 1) (PyFloat (asr_weight m))) l_st)
            (py_mul (PyFloat (asr_weight m)) l_asr)"

definition forward_body ::
  "'a extern \<Rightarrow> 'a model \<Rightarrow> real \<Rightarrow> 'a tensor \<Rightarrow> lens \<Rightarrow> tokens \<Rightarrow> lens \<Rightarrow> tokens option \<Rightarrow>
   lens option \<Rightarrow> pyerror + 'a forward_locals" where
  "forward_body ext m u speech speech_lengths text text_lengths src_text_arg src_text_lengths_arg =
     bindE (forward_inputs speech speech_lengths text text_lengths src_text_arg src_text_lengths_arg)
       (\<lambda>inp.
     let text1 = fst inp; src_text = fst (snd inp); src_text_lengths = snd (snd inp)
     in
     bindE (encode m speech speech_lengths) (\<lambda>enc.
     let sample = (u < ctc_sample_rate m)
     in
     bindE (asr_branch ext m sample (fst enc) (snd enc) src_text src_text_lengths) (\<lambda>asr.
     bindE (ctc_branch ext m (fst enc) (snd enc) src_text src_text_lengths) (\<lambda>ctcr.
     bindE (mt_input_lengths m sample (snd (snd (snd (snd (snd asr))))) src_text_lengths) (\<lambda>dec_lens.
     let enc_mt = encoder_mt m (fst (snd (snd (snd (snd asr))))) dec_lens
     in
     bindE (st_branch ext m (fst enc_mt) (snd enc_mt) text1 text_lengths (fst enc) (snd enc)) (\<lambda>st.
     let w = ctc_weight m sample;
         l_st = fst st;
         l_asr = combine_asr w (fst ctcr) (fst asr);
         l = combine_loss m l_st l_asr
     in Inr \<lparr>batch_size = size0 speech,
             text_cut = text1,
             src_text_cut = src_text,
             encoder_out = fst enc,
             encoder_out_lens = snd enc,
             do_ctc_sample = sample,
             ys_hat = snd (snd (snd (snd (snd asr)))),
             loss_asr_att = fst asr,
             acc_asr_att = fst (snd asr),
             cer_asr_att = fst (snd (snd asr)),
             wer_asr_att = fst (snd (snd (snd asr))),
             hs_dec_asr = fst (snd (snd (snd (snd asr)))),
             loss_asr_ctc = fst ctcr,
             cer_asr_ctc = snd ctcr,
             dec_asr_lengths = dec_lens,
             encoder_mt_out = fst enc_mt,
             encoder_mt_out_lens = snd enc_mt,
             loss_st_att = fst st,
             acc_st_att = fst (snd st),
             bleu_st_att = snd (snd st),
             asr_ctc_weight = w,
             loss_st = l_st,
             loss_asr = l_asr,
             loss = l\<rparr>))))))"

text \<open>
  Lines 273 to 283. A metric is a Python float or \<^verbatim>\<open>None\<close>; the dictionary keeps the
  order of its keys.
\<close>

definition metric :: "real option \<Rightarrow> pynum option" where
  "metric x = map_option PyFloat x"

definition make_stats :: "'a forward_locals \<Rightarrow> pyerror + (string \<times> pynum option) list" where
  "make_stats L =
     bindE (detach (loss L)) (\<lambda>s_loss.
     bindE (if \<not> is_float (loss_asr L) then detach (loss_asr L) else Inr (loss_asr L)) (\<lambda>s_loss_asr.
     bindE (if \<not> is_float (loss_asr L) then detach (loss_st L) else Inr (loss_asr L)) (\<lambda>s_loss_st.
     Inr [(''loss'', Some s_loss),
          (''loss_asr'', Some s_loss_asr),
          (''loss_st'', Some s_loss_st),
          (''acc_asr'', metric (acc_asr_att L)),
          (''acc'', Some (PyFloat (acc_st_att L))),
          (''cer_ctc'', metric (cer_asr_ctc L)),
          (''cer'', metric (cer_asr_att L)),
          (''wer'', metric (wer_asr_att L)),
          (''bleu'', metric (bleu_st_att L))])))"

text \<open>
  Modelled from the spec: \<^verbatim>\<open>force_gatherable\<close> (espnet2/torch\_utils/device\_funcs.py) is
  not among the source files. The spec does not describe it; the comment at its call
  site, line 285, does: "to-device and to-tensor if scalar for DataParallel". So a
  tensor stays what it is, a Python float becomes a float tensor outside the autograd
  graph, a Python int becomes an integer tensor, \<^verbatim>\<open>None\<close> stays \<^verbatim>\<open>None\<close>, and a tuple or
  dictionary is converted entry by entry. Devices are not modelled.
\<close>

fun to_gatherable :: "pynum \<Rightarrow> pynum" where
  "to_gatherable (Tensor v g) = Tensor v g"
| "to_gatherable (LongTensor i) = LongTensor i"
| "to_gatherable (PyFloat x) = Tensor x False"
| "to_gatherable (PyInt i) = LongTensor i"

definition force_gatherable ::
  "pynum \<times> (string \<times> pynum option) list \<times> nat \<Rightarrow> pynum \<times> (string \<times> pynum option) list \<times> pynum" where
  "force_gatherable d =
     (to_gatherable (fst d),
      map (\<lambda>kv. (fst kv, map_option to_gatherable (snd kv))) (fst (snd d)),
      to_gatherable (PyInt (int (snd (snd d)))))"

definition forward ::
  "'a extern \<Rightarrow> 'a model \<Rightarrow> real \<Rightarrow> 'a tensor \<Rightarrow> lens \<Rightarrow> tokens \<Rightarrow> lens \<Rightarrow> tokens option \<Rightarrow>
   lens option \<Rightarrow> pyerror + pynum \<times> (string \<times> pynum option) list \<times> pynum" where
  "forward ext m u speech speech_lengths text text_lengths src_text_arg src_text_lengths_arg =
     bindE (forward_body ext m u speech speech_lengths text text_lengths src_text_arg src_text_lengths_arg)
       (\<lambda>L.
     bindE (make_stats L) (\<lambda>stats.
     Inr (force_gatherable (loss L, stats, batch_size L))))"

section \<open>The sampled transcript as the specification words it\<close>

text \<open>
  Written from the words of the specification, not from the code: for one batch element,
  take the greedy CTC argmax row, collapse runs of equal tokens to one token, remove the
  blank token 0, and fall back to the element's \<^verbatim>\<open>src_text\<close> row without its \<open>-1\<close>
  entries when nothing is left; for the batch, record the length of every transcript and
  extend every transcript on the right with \<open>-1\<close> to the length of the longest one.
\<close>

definition spec_transcript :: "int list \<Rightarrow> int list \<Rightarrow> int list" where
  "spec_transcript argmax_row src_row =
     (let collapsed = remdups_adj argmax_row;
          no_blank = filter (\<lambda>x. x \<noteq> 0) collapsed
      in if no_blank = [] then filter (\<lambda>x. x \<noteq> - 1) src_row else no_blank)"

definition spec_right_pad :: "int list list \<Rightarrow> int list list" where
  "spec_right_pad hyps =
     map (\<lambda>h. h @ replicate (Max (set (map length hyps)) - length h) (- 1)) hyps"

definition spec_ctc_sample :: "tokens \<Rightarrow> tokens \<Rightarrow> tokens \<times> lens" where
  "spec_ctc_sample ys_argmax src_text =
     (let hyps = map2 spec_transcript ys_argmax src_text
      in (spec_right_pad hyps, map (\<lambda>h. int (length h)) hyps))"

section \<open>A concrete instance\<close>

text \<open>
  Small sub-modules over frames that are single reals, on which the definitions above
  can be evaluated. The speech encoder and the MT encoder are the identity; the ASR
  decoder ignores the encoder output and returns the transcript it is given; the ST
  decoder returns its speech argument when it gets one and its memory otherwise; a
  criterion sums the frames of the decoder output; the CTC argmax rounds every frame
  down to a token id.
\<close>

definition ex_add_sos_eos :: "tokens \<Rightarrow> int \<Rightarrow> int \<Rightarrow> int \<Rightarrow> tokens \<times> tokens" where
  "ex_add_sos_eos ys s e ign =
     (map (\<lambda>r. s # filter (\<lambda>x. x \<noteq> ign) r) ys, map (\<lambda>r. filter (\<lambda>x. x \<noteq> ign) r @ [e]) ys)"

definition ex_asr_calc :: ASRErrorCalculator_obj where
  "ex_asr_calc = \<lparr>asr_calc = (\<lambda>hyp ref. (Some 0, Some 0)), asr_calc_ctc = (\<lambda>hyp ref. Some 0)\<rparr>"

definition ex_ext :: "real extern" where
  "ex_ext =
     \<lparr>add_sos_eos = ex_add_sos_eos,
      th_accuracy = (\<lambda>out ys ign. 1),
      view2 = (\<lambda>t n. concat t),
      argmax_last = map (map floor),
      LabelSmoothingLoss = (\<lambda>n pad sm nl out ys. (sum_list (concat out), True)),
      MTErrorCalculator = (\<lambda>toks sp bl rb hyp ref. Some 0),
      ASRErrorCalculator = (\<lambda>toks sp bl rc rw. ex_asr_calc)\<rparr>"

definition ex_ctc :: "real CTC" where
  "ex_ctc = \<lparr>ctc_forward = (\<lambda>enc enc_lens ys ys_lens. (2, True)), ctc_argmax = map (map floor)\<rparr>"

definition ex_layer :: "real layer" where
  "ex_layer t l = (t, l)"

definition ex_decoder ::
  "real tensor \<Rightarrow> lens \<Rightarrow> tokens \<Rightarrow> lens \<Rightarrow> (real tensor \<times> lens) option \<Rightarrow> real tensor" where
  "ex_decoder mem mem_lens ys_in ys_in_lens sp = (case sp of None \<Rightarrow> mem | Some s \<Rightarrow> fst s)"

definition ex_asr_decoder :: "real tensor \<Rightarrow> lens \<Rightarrow> tokens \<Rightarrow> lens \<Rightarrow> real tensor \<times> real tensor" where
  "ex_asr_decoder enc enc_lens ys_in ys_in_lens = (map (map of_int) ys_in, map (map of_int) ys_in)"

definition ex_defaults :: "real init_args" where
  "ex_defaults =
     default_args 5 (PyList []) None None None None ex_layer ex_layer None ex_decoder
       ex_asr_decoder ex_ctc"

definition ex_args :: "real init_args" where
  "ex_args =
     ex_defaults\<lparr>arg_src_vocab_size := 5, arg_asr_weight := 1 / 4, arg_mtlalpha := 1 / 2,
                 arg_ctc_sample_rate := 1 / 2, arg_speech_attn := True\<rparr>"

definition ex_speech :: "real tensor" where
  "ex_speech = [[1, 1, 0, 2], [0, 0, 0, 0]]"

definition ex_speech_lengths :: lens where
  "ex_speech_lengths = [4, 2]"

definition ex_text :: tokens where
  "ex_text = [[3, 2], [3, - 1]]"

definition ex_text_lengths :: lens where
  "ex_text_lengths = [2, 1]"

definition ex_src_text :: tokens where
  "ex_src_text = [[2, 2], [3, - 1]]"

definition ex_src_text_lengths :: lens where
  "ex_src_text_lengths = [2, 1]"

text \<open>
  Five instances: \<open>ex_model\<close> attends to the speech and has a CTC module;
  \<open>ex_model_mt\<close> differs from it in \<open>mt_weight\<close> only;
  \<open>ex_model_plain\<close> keeps the default \<open>speech_attn = False\<close>; \<open>ex_model_noctc\<close>
  also keeps the default \<open>mtlalpha = 0.0\<close>; \<open>ex_model_att_only\<close> attends to the
  speech and keeps \<open>mtlalpha = 0.0\<close>. \<open>ex_speech2\<close> differs from \<open>ex_speech\<close> in
  one frame.
\<close>

definition ex_model :: "real model" where
  "ex_model = projr (ESPnetSTMDSampModel_init ex_ext ex_args)"

definition ex_args_plain :: "real init_args" where
  "ex_args_plain = ex_args\<lparr>arg_speech_attn := False\<rparr>"

definition ex_model_plain :: "real model" where
  "ex_model_plain = projr (ESPnetSTMDSampModel_init ex_ext ex_args_plain)"

definition ex_args_noctc :: "real init_args" where
  "ex_args_noctc =
     ex_defaults\<lparr>arg_src_vocab_size := 5, arg_asr_weight := 1 / 4, arg_ctc_sample_rate := 1 / 2\<rparr>"

definition ex_model_noctc :: "real model" where
  "ex_model_noctc = projr (ESPnetSTMDSampModel_init ex_ext ex_args_noctc)"

definition ex_args_att_only :: "real init_args" where
  "ex_args_att_only = ex_args_noctc\<lparr>arg_speech_attn := True\<rparr>"

definition ex_model_att_only :: "real model" where
  "ex_model_att_only = projr (ESPnetSTMDSampModel_init ex_ext ex_args_att_only)"

definition ex_args_mt :: "real init_args" where
  "ex_args_mt = ex_args\<lparr>arg_mt_weight := 1 / 2\<rparr>"

definition ex_model_mt :: "real model" where
  "ex_model_mt = projr (ESPnetSTMDSampModel_init ex_ext ex_args_mt)"

definition ex_speech2 :: "real tensor" where
  "ex_speech2 = [[1, 1, 0, 5], [0, 0, 0, 0]]"

section \<open>Properties\<close>

lemma bindE_Inr [simp]: "bindE (Inr v) f = f v"
  by (simp add: bindE_def)

lemma bindE_Inl [simp]: "bindE (Inl e) f = Inl e"
  by (simp add: bindE_def)

lemma bindE_eq_Inr: "bindE r f = Inr y \<longleftrightarrow> (\<exists>v. r = Inr v \<and> f v = Inr y)"
  by (cases r) simp_all

subsection \<open>The linear head\<close>

lemma dot_init_row:
  "length x = F \<Longrightarrow> dot (map (w0 i) [0..<F]) x = (\<Sum>j<F. w0 i j * x ! j)"
  by (simp add: dot_def sum_list_sum_nth atLeast0LessThan)

lemma affine_init_length:
  "length (affine (Linear_init w0 b0 F n) x) = n"
  by (simp add: affine_def Linear_init_def)

lemma affine_init_nth:
  "length x = F \<Longrightarrow> i < n \<Longrightarrow>
   affine (Linear_init w0 b0 F n) x ! i = (\<Sum>j<F. w0 i j * x ! j) + b0 i"
  by (simp add: affine_def Linear_init_def dot_init_row)

text \<open>
  C8. A decoder built with \<open>F\<close> input features and \<open>n\<close> labels (2 when the argument is
  left out) reports \<open>n\<close> as \<open>num_labels\<close>; its forward result does not depend on
  \<open>ilens\<close>; and on every input whose frames have \<open>F\<close> features it returns the affine
  map of its linear layer applied frame by frame: an output with the batch and time
  lengths of the input, \<open>n\<close> logits per frame, logit \<open>i\<close> being the weighted sum of the
  frame with row \<open>i\<close> of the weight matrix plus bias \<open>i\<close>.
\<close>

theorem LinearDecoder_forward_affine:
  assumes d: "d = LinearDecoder_init w0 b0 F nl"
    and n: "n = (case nl of None \<Rightarrow> 2 | Some k \<Rightarrow> k)"
  shows "num_labels d = n \<and>
         LinearDecoder_forward d input ilens = LinearDecoder_forward d input ilens' \<and>
         (list_all (list_all (\<lambda>x. length x = F)) input \<longrightarrow>
            (\<exists>out. LinearDecoder_forward d input ilens = Inr out \<and>
               out = map (map (affine (linear_decoder d))) input \<and>
               length out = length input \<and>
               (\<forall>b < length input. length (out ! b) = length (input ! b) \<and>
                  (\<forall>t < length (input ! b). length (out ! b ! t) = n \<and>
                     (\<forall>i < n. out ! b ! t ! i =
                         (\<Sum>j<F. w0 i j * input ! b ! t ! j) + b0 i)))))"
proof -
  have lin: "linear_decoder d = Linear_init w0 b0 F n"
    using d n by (simp add: LinearDecoder_init_def Let_def)
  have nl: "num_labels d = n"
    using d n by (simp add: LinearDecoder_init_def num_labels_def Let_def)
  have indep: "LinearDecoder_forward d input ilens = LinearDecoder_forward d input ilens'"
    by (simp add: LinearDecoder_forward_def)
  have shaped: "\<exists>out. LinearDecoder_forward d input ilens = Inr out \<and>
               out = map (map (affine (linear_decoder d))) input \<and>
               length out = length input \<and>
               (\<forall>b < length input. length (out ! b) = length (input ! b) \<and>
                  (\<forall>t < length (input ! b). length (out ! b ! t) = n \<and>
                     (\<forall>i < n. out ! b ! t ! i =
                         (\<Sum>j<F. w0 i j * input ! b ! t ! j) + b0 i)))"
    if ws: "list_all (list_all (\<lambda>x. length x = F)) input"
  proof -
    have fw: "LinearDecoder_forward d input ilens = Inr (map (map (affine (linear_decoder d))) input)"
      using ws by (simp add: LinearDecoder_forward_def Linear_forward_def lin Linear_init_def)
    have frame: "length (input ! b ! t) = F" if "b < length input" "t < length (input ! b)" for b t
      using ws that by (simp add: list_all_length)
    show ?thesis
      using fw frame by (simp add: lin affine_init_length affine_init_nth)
  qed
  show ?thesis using nl indep shaped by blast
qed

theorem LinearDecoder_forward_affine_witness:
  "list_all (list_all (\<lambda>x. length x = 2)) [[[1, 2 :: real]]] \<and>
   num_labels (LinearDecoder_init (\<lambda>i j. real (i + j)) (\<lambda>i. 1) 2 None) = 2 \<and>
   LinearDecoder_forward (LinearDecoder_init (\<lambda>i j. real (i + j)) (\<lambda>i. 1) 2 None) [[[1, 2]]] [1]
     = Inr [[[3, 6]]]"
  using LinearDecoder_forward_affine [OF refl refl,
      of "\<lambda>i j. real (i + j)" "\<lambda>i. 1" 2 None "[[[1, 2]]]" "[1]" "[5]"]
  by (simp add: affine_def Linear_init_def LinearDecoder_init_def dot_def upt_rec numeral_2_eq_2
      LinearDecoder_forward_def Linear_forward_def num_labels_def)

subsection \<open>The constructor\<close>

lemma init_success:
  assumes "0 < arg_asr_weight a" "arg_asr_weight a < 1" "0 \<le> arg_mt_weight a"
    "arg_mt_weight a < 1" "0 \<le> arg_mtlalpha a" "arg_mtlalpha a < 1"
    "arg_token_list a = PyList xs" "arg_src_token_list a = PyList ys"
  shows "\<not> isl (ESPnetSTMDSampModel_init ext a)"
  using assms by (simp add: ESPnetSTMDSampModel_init_def)

lemma init_fail:
  assumes "\<not> (0 < arg_asr_weight a \<and> arg_asr_weight a < 1 \<and>
        0 \<le> arg_mt_weight a \<and> arg_mt_weight a < 1 \<and>
        0 \<le> arg_mtlalpha a \<and> arg_mtlalpha a < 1)"
  shows "ESPnetSTMDSampModel_init ext a = Inl AssertionError"
  using assms unfolding ESPnetSTMDSampModel_init_def
  by (simp only: if_True if_False split: if_splits) auto

lemma init_Inr_pre:
  assumes "ESPnetSTMDSampModel_init ext a = Inr m"
  shows "0 < arg_asr_weight a \<and> arg_asr_weight a < 1 \<and>
        0 \<le> arg_mt_weight a \<and> arg_mt_weight a < 1 \<and>
        0 \<le> arg_mtlalpha a \<and> arg_mtlalpha a < 1"
proof (rule ccontr)
  assume "\<not> ?thesis"
  then have "ESPnetSTMDSampModel_init ext a = Inl AssertionError"
    by (rule init_fail)
  with assms show False by simp
qed

text \<open>
  C9. Construction returns an instance only if \<open>0 < asr_weight < 1\<close>,
  \<open>0 \<le> mt_weight < 1\<close> and \<open>0 \<le> mtlalpha < 1\<close>; whenever one of the three
  conditions fails it raises \<open>AssertionError\<close>; and a call that leaves every optional
  parameter at its default, so with \<open>asr_weight = 0.0\<close>, is rejected with
  \<open>AssertionError\<close> whatever the twelve required arguments are.
\<close>

theorem init_assertions:
  "(\<forall>m. ESPnetSTMDSampModel_init ext a = Inr m \<longrightarrow>
        0 < arg_asr_weight a \<and> arg_asr_weight a < 1 \<and>
        0 \<le> arg_mt_weight a \<and> arg_mt_weight a < 1 \<and>
        0 \<le> arg_mtlalpha a \<and> arg_mtlalpha a < 1) \<and>
   (\<not> (0 < arg_asr_weight a \<and> arg_asr_weight a < 1 \<and>
        0 \<le> arg_mt_weight a \<and> arg_mt_weight a < 1 \<and>
        0 \<le> arg_mtlalpha a \<and> arg_mtlalpha a < 1) \<longrightarrow>
      ESPnetSTMDSampModel_init ext a = Inl AssertionError) \<and>
   ESPnetSTMDSampModel_init ext
     (default_args vsize toks fe sa nrm pre enc enc_mt post dec asr_dec c) = Inl AssertionError"
proof -
  have "\<not> 0 < arg_asr_weight (default_args vsize toks fe sa nrm pre enc enc_mt post dec asr_dec c)"
    by (simp add: default_args_def)
  then have "ESPnetSTMDSampModel_init ext
     (default_args vsize toks fe sa nrm pre enc enc_mt post dec asr_dec c) = Inl AssertionError"
    by (intro init_fail) blast
  then show ?thesis
    using init_Inr_pre [of ext a] init_fail [of a ext] by blast
qed

theorem init_assertions_witness:
  "\<not> isl (ESPnetSTMDSampModel_init ex_ext ex_args) \<and>
   0 < arg_asr_weight ex_args \<and> arg_asr_weight ex_args < 1 \<and>
   0 \<le> arg_mt_weight ex_args \<and> arg_mt_weight ex_args < 1 \<and>
   0 \<le> arg_mtlalpha ex_args \<and> arg_mtlalpha ex_args < 1 \<and>
   arg_asr_weight (ex_args\<lparr>arg_asr_weight := 1\<rparr>) = 1 \<and>
   ESPnetSTMDSampModel_init ex_ext (ex_args\<lparr>arg_asr_weight := 1\<rparr>) = Inl AssertionError \<and>
   ESPnetSTMDSampModel_init ex_ext ex_defaults = Inl AssertionError"
proof -
  have ok: "\<not> isl (ESPnetSTMDSampModel_init ex_ext ex_args)"
    by (rule init_success [where xs = "[]" and ys = "[]"])
       (simp_all add: ex_args_def ex_defaults_def default_args_def)
  then obtain m where m: "ESPnetSTMDSampModel_init ex_ext ex_args = Inr m"
    by (cases "ESPnetSTMDSampModel_init ex_ext ex_args") simp_all
  have one: "arg_asr_weight (ex_args\<lparr>arg_asr_weight := 1\<rparr>) = 1"
    by simp
  show ?thesis
    using ok m one
      init_assertions [of ex_ext ex_args 5 "PyList []" None None None None ex_layer ex_layer
        None ex_decoder ex_asr_decoder ex_ctc]
      init_assertions [of ex_ext "ex_args\<lparr>arg_asr_weight := 1\<rparr>"]
    unfolding ex_defaults_def [symmetric]
    by (metis less_irrefl)
qed

lemma init_fields:
  assumes "ESPnetSTMDSampModel_init ext a = Inr m"
  shows "sos m = arg_vocab_size a - 1" "eos m = arg_vocab_size a - 1"
    "src_sos m = arg_src_vocab_size a - 1" "src_eos m = arg_src_vocab_size a - 1"
    "vocab_size m = arg_vocab_size a" "src_vocab_size m = arg_src_vocab_size a"
    "ignore_id m = arg_ignore_id a" "asr_weight m = arg_asr_weight a"
    "mt_weight m = arg_mt_weight a" "mtlalpha m = arg_mtlalpha a"
    "ctc_sample_rate m = arg_ctc_sample_rate a" "speech_attn m = arg_speech_attn a"
    "frontend m = arg_frontend a" "specaug m = arg_specaug a"
    "normalize_layer m = arg_normalize a" "preencoder m = arg_preencoder a"
    "postencoder m = arg_postencoder a" "encoder m = arg_encoder a"
    "encoder_mt m = arg_encoder_mt a" "decoder m = arg_decoder a"
    "criterion_st m = LabelSmoothingLoss ext (arg_vocab_size a) (arg_ignore_id a)
                              (arg_lsm_weight a) (arg_length_normalized_loss a)"
    "criterion_asr m = LabelSmoothingLoss ext (arg_src_vocab_size a) (arg_ignore_id a)
                              (arg_lsm_weight a) (arg_length_normalized_loss a)"
    "ctc m = (if arg_mtlalpha a > 0 then Some (arg_ctc a) else None)"
    "asr_decoder m = arg_asr_decoder a"
    "mt_error_calculator m =
               (if arg_report_bleu a
                then Some (MTErrorCalculator ext (arg_token_list a) (arg_sym_space a)
                             (arg_sym_blank a) (arg_report_bleu a))
                else None)"
    "asr_error_calculator m =
               (if arg_report_cer a \<or> arg_report_wer a
                then Some (ASRErrorCalculator ext (arg_src_token_list a) (arg_sym_space a)
                             (arg_sym_blank a) (arg_report_cer a) (arg_report_wer a))
                else None)"
    "training m = True"
proof -
  have pre: "0 < arg_asr_weight a \<and> arg_asr_weight a < 1 \<and>
        0 \<le> arg_mt_weight a \<and> arg_mt_weight a < 1 \<and>
        0 \<le> arg_mtlalpha a \<and> arg_mtlalpha a < 1"
    using assms by (rule init_Inr_pre)
  obtain t1 t2 where m: "m = \<lparr>sos = arg_vocab_size a - 1,
             eos = arg_vocab_size a - 1,
             src_sos = arg_src_vocab_size a - 1,
             src_eos = arg_src_vocab_size a - 1,
             vocab_size = arg_vocab_size a,
             src_vocab_size = arg_src_vocab_size a,
             ignore_id = arg_ignore_id a,
             asr_weight = arg_asr_weight a,
             mt_weight = arg_mt_weight a,
             mtlalpha = arg_mtlalpha a,
             ctc_sample_rate = arg_ctc_sample_rate a,
             token_list = t1,
             src_token_list = t2,
             speech_attn = arg_speech_attn a,
             frontend = arg_frontend a,
             specaug = arg_specaug a,
             normalize_layer = arg_normalize a,
             preencoder = arg_preencoder a,
             postencoder = arg_postencoder a,
             encoder = arg_encoder a,
             encoder_mt = arg_encoder_mt a,
             decoder = arg_decoder a,
             criterion_st = LabelSmoothingLoss ext (arg_vocab_size a) (arg_ignore_id a)
                              (arg_lsm_weight a) (arg_length_normalized_loss a),
             criterion_asr = LabelSmoothingLoss ext (arg_src_vocab_size a) (arg_ignore_id a)
                              (arg_lsm_weight a) (arg_length_normalized_loss a),
             ctc = (if arg_mtlalpha a > 0 then Some (arg_ctc a) else None),
             asr_decoder = arg_asr_decoder a,
             mt_error_calculator =
               (if arg_report_bleu a
                then Some (MTErrorCalculator ext (arg_token_list a) (arg_sym_space a)
                             (arg_sym_blank a) (arg_report_bleu a))
                else None),
             asr_error_calculator =
               (if arg_report_cer a \<or> arg_report_wer a
                then Some (ASRErrorCalculator ext (arg_src_token_list a) (arg_sym_space a)
                             (arg_sym_blank a) (arg_report_cer a) (arg_report_wer a))
                else None),
             extract_feats_in_collect_stats = arg_extract_feats_in_collect_stats a,
             training = True\<rparr>"
    using assms pre unfolding ESPnetSTMDSampModel_init_def
    by (simp only: simp_thms if_True if_False bindE_eq_Inr) blast
  show "sos m = arg_vocab_size a - 1" "eos m = arg_vocab_size a - 1"
    "src_sos m = arg_src_vocab_size a - 1" "src_eos m = arg_src_vocab_size a - 1"
    "vocab_size m = arg_vocab_size a" "src_vocab_size m = arg_src_vocab_size a"
    "ignore_id m = arg_ignore_id a" "asr_weight m = arg_asr_weight a"
    "mt_weight m = arg_mt_weight a" "mtlalpha m = arg_mtlalpha a"
    "ctc_sample_rate m = arg_ctc_sample_rate a" "speech_attn m = arg_speech_attn a"
    "frontend m = arg_frontend a" "specaug m = arg_specaug a"
    "normalize_layer m = arg_normalize a" "preencoder m = arg_preencoder a"
    "postencoder m = arg_postencoder a" "encoder m = arg_encoder a"
    "encoder_mt m = arg_encoder_mt a" "decoder m = arg_decoder a"
    "criterion_st m = LabelSmoothingLoss ext (arg_vocab_size a) (arg_ignore_id a)
                              (arg_lsm_weight a) (arg_length_normalized_loss a)"
    "criterion_asr m = LabelSmoothingLoss ext (arg_src_vocab_size a) (arg_ignore_id a)
                              (arg_lsm_weight a) (arg_length_normalized_loss a)"
    "ctc m = (if arg_mtlalpha a > 0 then Some (arg_ctc a) else None)"
    "asr_decoder m = arg_asr_decoder a"
    "mt_error_calculator m =
               (if arg_report_bleu a
                then Some (MTErrorCalculator ext (arg_token_list a) (arg_sym_space a)
                             (arg_sym_blank a) (arg_report_bleu a))
                else None)"
    "asr_error_calculator m =
               (if arg_report_cer a \<or> arg_report_wer a
                then Some (ASRErrorCalculator ext (arg_src_token_list a) (arg_sym_space a)
                             (arg_sym_blank a) (arg_report_cer a) (arg_report_wer a))
                else None)"
    "training m = True"
    by (simp_all only: m model.simps)
qed

subsection \<open>The stages of forward\<close>

lemma forward_body_stages:
  assumes "forward_body ext m u speech slen text tlen stx stxlen = Inr L"
  shows "\<exists>inp enc asr ctcr dec_lens str.
    forward_inputs speech slen text tlen stx stxlen = Inr inp \<and>
    encode m speech slen = Inr enc \<and>
    asr_branch ext m (u < ctc_sample_rate m) (fst enc) (snd enc) (fst (snd inp)) (snd (snd inp))
      = Inr asr \<and>
    ctc_branch ext m (fst enc) (snd enc) (fst (snd inp)) (snd (snd inp)) = Inr ctcr \<and>
    mt_input_lengths m (u < ctc_sample_rate m) (snd (snd (snd (snd (snd asr))))) (snd (snd inp))
      = Inr dec_lens \<and>
    st_branch ext m (fst (encoder_mt m (fst (snd (snd (snd (snd asr))))) dec_lens))
       (snd (encoder_mt m (fst (snd (snd (snd (snd asr))))) dec_lens))
       (fst inp) tlen (fst enc) (snd enc) = Inr str \<and>
    L = \<lparr>batch_size = size0 speech,
         text_cut = fst inp,
         src_text_cut = fst (snd inp),
         encoder_out = fst enc,
         encoder_out_lens = snd enc,
         do_ctc_sample = (u < ctc_sample_rate m),
         ys_hat = snd (snd (snd (snd (snd asr)))),
         loss_asr_att = fst asr,
         acc_asr_att = fst (snd asr),
         cer_asr_att = fst (snd (snd asr)),
         wer_asr_att = fst (snd (snd (snd asr))),
         hs_dec_asr = fst (snd (snd (snd (snd asr)))),
         loss_asr_ctc = fst ctcr,
         cer_asr_ctc = snd ctcr,
         dec_asr_lengths = dec_lens,
         encoder_mt_out = fst (encoder_mt m (fst (snd (snd (snd (snd asr))))) dec_lens),
         encoder_mt_out_lens = snd (encoder_mt m (fst (snd (snd (snd (snd asr))))) dec_lens),
         loss_st_att = fst str,
         acc_st_att = fst (snd str),
         bleu_st_att = snd (snd str),
         asr_ctc_weight = ctc_weight m (u < ctc_sample_rate m),
         loss_st = fst str,
         loss_asr = combine_asr (ctc_weight m (u < ctc_sample_rate m)) (fst ctcr) (fst asr),
         loss = combine_loss m (fst str)
                  (combine_asr (ctc_weight m (u < ctc_sample_rate m)) (fst ctcr) (fst asr))\<rparr>"
  using assms unfolding forward_body_def Let_def bindE_eq_Inr
  by blast


lemma st_branch_Inr:
  "st_branch ext m emt emtl text tlen enc el = Inr str \<longleftrightarrow>
     speech_attn m \<and> str = calc_mt_att_loss ext m emt emtl text tlen enc el"
  by (auto simp: st_branch_def)

lemma st_branch_unbound:
  "\<not> speech_attn m \<Longrightarrow> st_branch ext m emt emtl text tlen enc el = Inl NameError"
  by (simp add: st_branch_def)

lemma forward_body_speech_attn:
  assumes "forward_body ext m u speech slen text tlen stx stxlen = Inr L"
  shows "speech_attn m"
  using forward_body_stages [OF assms] by (auto simp: st_branch_Inr)

lemma forward_Inr:
  assumes "forward ext m u speech slen text tlen stx stxlen = Inr r"
  shows "\<exists>L stats0. forward_body ext m u speech slen text tlen stx stxlen = Inr L \<and>
           make_stats L = Inr stats0 \<and> r = force_gatherable (loss L, stats0, batch_size L)"
  using assms unfolding forward_def bindE_eq_Inr by auto

lemma forward_body_unbound:
  assumes "\<not> speech_attn m"
    and "forward_inputs speech slen text tlen stx stxlen = Inr inp"
    and "encode m speech slen = Inr enc"
    and "asr_branch ext m (u < ctc_sample_rate m) (fst enc) (snd enc) (fst (snd inp)) (snd (snd inp))
           = Inr asr"
    and "ctc_branch ext m (fst enc) (snd enc) (fst (snd inp)) (snd (snd inp)) = Inr ctcr"
    and "mt_input_lengths m (u < ctc_sample_rate m) (snd (snd (snd (snd (snd asr))))) (snd (snd inp))
           = Inr dec_lens"
  shows "forward_body ext m u speech slen text tlen stx stxlen = Inl NameError"
  using assms by (simp add: forward_body_def Let_def st_branch_unbound)

lemma mt_input_lengths_after_asr:
  assumes "asr_branch ext m s enc el src sl = Inr asr"
  shows "\<exists>d. mt_input_lengths m s (snd (snd (snd (snd (snd asr))))) sl = Inr d"
  using assms
  by (auto simp: asr_branch_def mt_input_lengths_def bindE_eq_Inr Let_def split: if_splits)

subsection \<open>Evaluating the concrete instance\<close>

lemma ex_model_init: "ESPnetSTMDSampModel_init ex_ext ex_args = Inr ex_model"
proof -
  have "\<not> isl (ESPnetSTMDSampModel_init ex_ext ex_args)"
    by (rule init_success [where xs = "[]" and ys = "[]"])
       (simp_all add: ex_args_def ex_defaults_def default_args_def)
  then show ?thesis
    by (cases "ESPnetSTMDSampModel_init ex_ext ex_args") (simp_all add: ex_model_def)
qed

lemma ex_model_plain_init: "ESPnetSTMDSampModel_init ex_ext ex_args_plain = Inr ex_model_plain"
proof -
  have "\<not> isl (ESPnetSTMDSampModel_init ex_ext ex_args_plain)"
    by (rule init_success [where xs = "[]" and ys = "[]"])
       (simp_all add: ex_args_plain_def ex_args_def ex_defaults_def default_args_def)
  then show ?thesis
    by (cases "ESPnetSTMDSampModel_init ex_ext ex_args_plain") (simp_all add: ex_model_plain_def)
qed

lemma ex_model_noctc_init: "ESPnetSTMDSampModel_init ex_ext ex_args_noctc = Inr ex_model_noctc"
proof -
  have "\<not> isl (ESPnetSTMDSampModel_init ex_ext ex_args_noctc)"
    by (rule init_success [where xs = "[]" and ys = "[]"])
       (simp_all add: ex_args_noctc_def ex_defaults_def default_args_def)
  then show ?thesis
    by (cases "ESPnetSTMDSampModel_init ex_ext ex_args_noctc") (simp_all add: ex_model_noctc_def)
qed

lemma ex_model_att_only_init:
  "ESPnetSTMDSampModel_init ex_ext ex_args_att_only = Inr ex_model_att_only"
proof -
  have "\<not> isl (ESPnetSTMDSampModel_init ex_ext ex_args_att_only)"
    by (rule init_success [where xs = "[]" and ys = "[]"])
       (simp_all add: ex_args_att_only_def ex_args_noctc_def ex_defaults_def default_args_def)
  then show ?thesis
    by (cases "ESPnetSTMDSampModel_init ex_ext ex_args_att_only")
       (simp_all add: ex_model_att_only_def)
qed

lemmas ex_args_simps = ex_args_def ex_args_plain_def ex_args_noctc_def ex_args_att_only_def
  ex_defaults_def default_args_def

lemmas ex_model_att_only_fields = init_fields [OF ex_model_att_only_init]

lemmas ex_model_fields =
  init_fields [OF ex_model_init]

lemmas ex_model_plain_fields =
  init_fields [OF ex_model_plain_init]

lemmas ex_model_noctc_fields =
  init_fields [OF ex_model_noctc_init]


lemmas ex_data = ex_speech_def ex_speech2_def ex_speech_lengths_def ex_text_def
  ex_text_lengths_def ex_src_text_def ex_src_text_lengths_def

lemmas ex_parts = ex_ext_def ex_ctc_def ex_layer_def ex_decoder_def ex_asr_decoder_def
  ex_add_sos_eos_def ex_asr_calc_def

lemmas stage_defs = forward_inputs_def encode_def extract_feats_def apply_opt_def
  asr_branch_def ctc_branch_def mt_input_lengths_def st_branch_def ctc_weight_def
  combine_asr_def combine_loss_def calc_asr_att_loss_def calc_mt_att_loss_def
  calc_ctc_loss_def get_ctc_def ctc_sample_def pad_sequence_def tensor_max_def
  slice_cols_def slice_to_def size0_def size1_def plus1_def
  py_add_def py_mul_def py_sub_def py_binop_def

lemmas eval_simps = forward_def forward_body_def stage_defs ex_data ex_parts
      Let_def make_stats_def force_gatherable_def metric_def train_def ex_args_simps

lemma ex_forward_teacher:
  "forward ex_ext ex_model (3 / 4) ex_speech ex_speech_lengths ex_text ex_text_lengths
     (Some ex_src_text) (Some ex_src_text_lengths) =
   Inr (Tensor (41 / 8) True,
      [(''loss'', Some (Tensor (41 / 8) False)),
       (''loss_asr'', Some (Tensor (17 / 2) False)),
       (''loss_st'', Some (Tensor 4 False)),
       (''acc_asr'', Some (Tensor 1 False)),
       (''acc'', Some (Tensor 1 False)), (''cer_ctc'', None),
       (''cer'', None), (''wer'', None), (''bleu'', None)],
      LongTensor 2)"
  by (simp add: eval_simps ex_model_fields)

lemma ex_forward_sampled:
  "forward ex_ext ex_model (1 / 4) ex_speech ex_speech_lengths ex_text ex_text_lengths
     (Some ex_src_text) (Some ex_src_text_lengths) =
   Inr (Tensor (7 / 2) True,
      [(''loss'', Some (Tensor (7 / 2) False)),
       (''loss_asr'', Some (Tensor 2 False)),
       (''loss_st'', Some (Tensor 4 False)), (''acc_asr'', None),
       (''acc'', Some (Tensor 1 False)), (''cer_ctc'', None),
       (''cer'', None), (''wer'', None), (''bleu'', None)],
      LongTensor 2)"
  by (simp add: eval_simps ex_model_fields)

lemma ex_forward_eval:
  "forward ex_ext (train False ex_model) (1 / 4) ex_speech ex_speech_lengths ex_text ex_text_lengths
     (Some ex_src_text) (Some ex_src_text_lengths) =
   Inr (Tensor (41 / 8) True,
      [(''loss'', Some (Tensor (41 / 8) False)),
       (''loss_asr'', Some (Tensor (17 / 2) False)),
       (''loss_st'', Some (Tensor 4 False)),
       (''acc_asr'', Some (Tensor 1 False)),
       (''acc'', Some (Tensor 1 False)),
       (''cer_ctc'', Some (Tensor 0 False)),
       (''cer'', Some (Tensor 0 False)), (''wer'', Some (Tensor 0 False)),
       (''bleu'', Some (Tensor 0 False))],
      LongTensor 2)"
  by (simp add: eval_simps ex_model_fields)

lemma ex_forward_plain:
  "forward ex_ext ex_model_plain (3 / 4) ex_speech ex_speech_lengths ex_text ex_text_lengths
     (Some ex_src_text) (Some ex_src_text_lengths) = Inl NameError"
  by (simp add: eval_simps ex_model_plain_fields)

lemma ex_forward_noctc:
  "forward ex_ext ex_model_noctc (1 / 4) ex_speech ex_speech_lengths ex_text ex_text_lengths
     (Some ex_src_text) (Some ex_src_text_lengths) = Inl AttributeError"
  by (simp add: eval_simps ex_model_noctc_fields)

subsection \<open>The unbound speech variables\<close>

text \<open>
  C3, as amended. \<^verbatim>\<open>forward\<close> returns only on an instance with \<open>speech_attn = True\<close>. On
  an instance with \<open>speech_attn = False\<close> it always raises: \<open>NameError\<close> at the call that
  computes the ST attention loss whenever the steps before that call complete (the
  assertions on the inputs, \<^verbatim>\<open>encode\<close>, the ASR branch and the CTC branch), and the
  exception of the earlier step otherwise.
\<close>

theorem forward_needs_speech_attn:
  "(\<forall>r. forward ext m u speech slen text tlen stx stxlen = Inr r \<longrightarrow> speech_attn m) \<and>
   (\<not> speech_attn m \<longrightarrow>
      isl (forward ext m u speech slen text tlen stx stxlen) \<and>
      (forward_inputs speech slen text tlen stx stxlen = Inr inp \<longrightarrow>
       encode m speech slen = Inr enc \<longrightarrow>
       asr_branch ext m (u < ctc_sample_rate m) (fst enc) (snd enc) (fst (snd inp)) (snd (snd inp))
         = Inr asr \<longrightarrow>
       ctc_branch ext m (fst enc) (snd enc) (fst (snd inp)) (snd (snd inp)) = Inr ctcr \<longrightarrow>
       forward ext m u speech slen text tlen stx stxlen = Inl NameError))"
proof -
  have a: "speech_attn m" if "forward ext m u speech slen text tlen stx stxlen = Inr r" for r
    using forward_Inr [OF that] forward_body_speech_attn by blast
  have b: "isl (forward ext m u speech slen text tlen stx stxlen)" if "\<not> speech_attn m"
    using a that by (cases "forward ext m u speech slen text tlen stx stxlen") auto
  have c: "forward ext m u speech slen text tlen stx stxlen = Inl NameError"
    if "\<not> speech_attn m"
      and "forward_inputs speech slen text tlen stx stxlen = Inr inp"
      and "encode m speech slen = Inr enc"
      and asr: "asr_branch ext m (u < ctc_sample_rate m) (fst enc) (snd enc) (fst (snd inp))
             (snd (snd inp)) = Inr asr"
      and "ctc_branch ext m (fst enc) (snd enc) (fst (snd inp)) (snd (snd inp)) = Inr ctcr"
  proof -
    obtain d where "mt_input_lengths m (u < ctc_sample_rate m) (snd (snd (snd (snd (snd asr)))))
        (snd (snd inp)) = Inr d"
      using mt_input_lengths_after_asr [OF asr] by blast
    with that have "forward_body ext m u speech slen text tlen stx stxlen = Inl NameError"
      by (intro forward_body_unbound)
    then show ?thesis by (simp add: forward_def)
  qed
  show ?thesis using a b c by blast
qed

theorem forward_needs_speech_attn_witness:
  "\<not> speech_attn ex_model_plain \<and>
   forward_inputs ex_speech ex_speech_lengths ex_text ex_text_lengths (Some ex_src_text)
     (Some ex_src_text_lengths) = Inr (ex_text, ex_src_text, ex_src_text_lengths) \<and>
   encode ex_model_plain ex_speech ex_speech_lengths = Inr (ex_speech, ex_speech_lengths) \<and>
   \<not> isl (asr_branch ex_ext ex_model_plain (3 / 4 < ctc_sample_rate ex_model_plain) ex_speech
            ex_speech_lengths ex_src_text ex_src_text_lengths) \<and>
   ctc_branch ex_ext ex_model_plain ex_speech ex_speech_lengths ex_src_text ex_src_text_lengths
     = Inr (Tensor 2 True, None) \<and>
   forward ex_ext ex_model_plain (3 / 4) ex_speech ex_speech_lengths ex_text ex_text_lengths
     (Some ex_src_text) (Some ex_src_text_lengths) = Inl NameError \<and>
   speech_attn ex_model \<and>
   \<not> isl (forward ex_ext ex_model (3 / 4) ex_speech ex_speech_lengths ex_text ex_text_lengths
     (Some ex_src_text) (Some ex_src_text_lengths))"
  using forward_needs_speech_attn [of ex_ext ex_model_plain "3 / 4" ex_speech ex_speech_lengths
      ex_text ex_text_lengths "Some ex_src_text" "Some ex_src_text_lengths"]
    forward_needs_speech_attn [of ex_ext ex_model "3 / 4" ex_speech ex_speech_lengths
      ex_text ex_text_lengths "Some ex_src_text" "Some ex_src_text_lengths"]
  by (simp add: eval_simps ex_model_plain_fields ex_model_fields)

text \<open>
  The claim as it was stated, \<open>NameError\<close> on every input of an instance with
  \<open>speech_attn = False\<close>, fails in two ways. A batch whose \<^verbatim>\<open>text\<close> has one row for
  two rows of \<^verbatim>\<open>speech\<close> fails the assertion of line 174, and \<open>AssertionError\<close> is
  raised. And on an instance built with the default \<open>mtlalpha = 0.0\<close> and a positive
  \<open>ctc_sample_rate\<close>, in training mode with a draw below the rate, line 202 reads
  \<^verbatim>\<open>self.ctc\<close>, which was never stored, and \<open>AttributeError\<close> is raised.
\<close>

theorem forward_unbound_counterexample:
  "\<not> speech_attn ex_model_plain \<and>
   forward ex_ext ex_model_plain (3 / 4) ex_speech ex_speech_lengths [[3, 2]] [2]
     (Some ex_src_text) (Some ex_src_text_lengths) = Inl AssertionError \<and>
   ESPnetSTMDSampModel_init ex_ext ex_args_noctc = Inr ex_model_noctc \<and>
   \<not> speech_attn ex_model_noctc \<and>
   forward ex_ext ex_model_noctc (1 / 4) ex_speech ex_speech_lengths ex_text ex_text_lengths
     (Some ex_src_text) (Some ex_src_text_lengths) = Inl AttributeError"
proof -
  have a: "\<not> speech_attn ex_model_noctc"
    by (simp add: ex_model_noctc_fields ex_args_simps)
  have b: "\<not> speech_attn ex_model_plain"
    by (simp add: ex_model_plain_fields ex_args_simps)
  have c: "forward ex_ext ex_model_plain (3 / 4) ex_speech ex_speech_lengths [[3, 2]] [2]
     (Some ex_src_text) (Some ex_src_text_lengths) = Inl AssertionError"
    by (simp add: eval_simps)
  show ?thesis
    using a b c ex_model_noctc_init ex_forward_noctc by blast
qed

subsection \<open>The loss composition\<close>

lemma num_val_integral: "is_integral x \<Longrightarrow> num_val x = of_int (int_val x)"
  by (cases x) simp_all

lemma num_val_py_mul: "num_val (py_mul x y) = num_val x * num_val y"
  by (simp add: py_mul_def py_binop_def num_val_integral)

lemma num_val_py_add: "num_val (py_add x y) = num_val x + num_val y"
  by (simp add: py_add_def py_binop_def num_val_integral)

lemma num_val_py_sub: "num_val (py_sub x y) = num_val x - num_val y"
  by (simp add: py_sub_def py_binop_def num_val_integral)

lemma py_binop_Tensor_right:
  "py_binop fr fi x (Tensor v g) = Tensor (fr (num_val x) v) (attached x \<or> g)"
  by (simp add: py_binop_def)

lemma py_binop_Tensor_left:
  "py_binop fr fi (Tensor v g) y = Tensor (fr v (num_val y)) (g \<or> attached y)"
  by (simp add: py_binop_def)

lemma num_val_combine_asr:
  "num_val (combine_asr w l_ctc l_att) = w * num_val l_ctc + (1 - w) * num_val l_att"
  by (simp add: combine_asr_def num_val_py_add num_val_py_mul num_val_py_sub)

lemma num_val_combine_loss:
  "num_val (combine_loss m l_st l_asr) =
     (1 - asr_weight m) * num_val l_st + asr_weight m * num_val l_asr"
  by (simp add: combine_loss_def num_val_py_add num_val_py_mul num_val_py_sub)

lemma combine_asr_Tensor:
  "\<exists>v' g'. combine_asr w l_ctc (Tensor v g) = Tensor v' g'"
  by (simp add: combine_asr_def py_add_def py_mul_def py_binop_Tensor_right)

lemma combine_loss_Tensor:
  "\<exists>v' g'. combine_loss m l_st (Tensor v g) = Tensor v' g'"
  by (simp add: combine_loss_def py_add_def py_mul_def py_binop_Tensor_right)

lemma calc_asr_att_loss_Tensor:
  "\<exists>v g. fst (calc_asr_att_loss ext m enc el ys yl) = Tensor v g"
  by (simp add: calc_asr_att_loss_def Let_def)

lemma calc_mt_att_loss_Tensor:
  "\<exists>v g. fst (calc_mt_att_loss ext m enc el ys yl sp spl) = Tensor v g"
  by (simp add: calc_mt_att_loss_def Let_def)

lemma asr_branch_cases:
  assumes "asr_branch ext m s enc el src sl = Inr asr"
  shows "(training m \<and> s \<longrightarrow>
            (\<exists>c smp. ctc m = Some c \<and> ctc_sample (ctc_argmax c enc) src = Inr smp \<and>
               asr = (fst (calc_asr_att_loss ext m enc el (fst smp) (snd smp)), None, None, None,
                      snd (snd (snd (snd (calc_asr_att_loss ext m enc el (fst smp) (snd smp))))),
                      Some smp))) \<and>
         (\<not> (training m \<and> s) \<longrightarrow>
            asr = (fst (calc_asr_att_loss ext m enc el src sl),
                   Some (fst (snd (calc_asr_att_loss ext m enc el src sl))),
                   fst (snd (snd (calc_asr_att_loss ext m enc el src sl))),
                   fst (snd (snd (snd (calc_asr_att_loss ext m enc el src sl)))),
                   snd (snd (snd (snd (calc_asr_att_loss ext m enc el src sl)))),
                   None))"
  using assms
  by (auto simp: asr_branch_def bindE_eq_Inr Let_def get_ctc_def split: if_splits option.splits)

lemma asr_branch_Tensor:
  assumes "asr_branch ext m s enc el src sl = Inr asr"
  shows "\<exists>v g. fst asr = Tensor v g"
  using asr_branch_cases [OF assms] calc_asr_att_loss_Tensor
  by (cases "training m \<and> s") fastforce+

lemma forward_body_loss_Tensor:
  assumes "forward_body ext m u speech slen text tlen stx stxlen = Inr L"
  shows "(\<exists>v g. loss_asr_att L = Tensor v g) \<and> (\<exists>v g. loss_st L = Tensor v g) \<and>
         (\<exists>v g. loss_asr L = Tensor v g) \<and> (\<exists>v g. loss L = Tensor v g)"
proof -
  obtain inp enc asr ctcr dec_lens str where
    asr: "asr_branch ext m (u < ctc_sample_rate m) (fst enc) (snd enc) (fst (snd inp))
            (snd (snd inp)) = Inr asr"
    and st: "st_branch ext m (fst (encoder_mt m (fst (snd (snd (snd (snd asr))))) dec_lens))
       (snd (encoder_mt m (fst (snd (snd (snd (snd asr))))) dec_lens))
       (fst inp) tlen (fst enc) (snd enc) = Inr str"
    and L: "loss_asr_att L = fst asr" "loss_st L = fst str"
      "loss_asr L = combine_asr (ctc_weight m (u < ctc_sample_rate m)) (fst ctcr) (fst asr)"
      "loss L = combine_loss m (fst str)
                  (combine_asr (ctc_weight m (u < ctc_sample_rate m)) (fst ctcr) (fst asr))"
    using forward_body_stages [OF assms] by force
  obtain va ga where a: "fst asr = Tensor va ga"
    using asr_branch_Tensor [OF asr] by blast
  have s: "\<exists>v g. fst str = Tensor v g"
    using st calc_mt_att_loss_Tensor by (auto simp: st_branch_Inr)
  obtain vb gb where b: "combine_asr (ctc_weight m (u < ctc_sample_rate m)) (fst ctcr) (fst asr)
      = Tensor vb gb"
    using combine_asr_Tensor [of "ctc_weight m (u < ctc_sample_rate m)" "fst ctcr" va ga] a
    by auto
  show ?thesis
    using a s b combine_loss_Tensor [of m "fst str" vb gb] by (simp add: L)
qed

lemma make_stats_Tensor:
  assumes "loss L = Tensor v g" "loss_asr L = Tensor va ga" "loss_st L = Tensor vs gs"
  shows "make_stats L =
     Inr [(''loss'', Some (Tensor v False)),
          (''loss_asr'', Some (Tensor va False)),
          (''loss_st'', Some (Tensor vs False)),
          (''acc_asr'', metric (acc_asr_att L)),
          (''acc'', Some (PyFloat (acc_st_att L))),
          (''cer_ctc'', metric (cer_asr_ctc L)),
          (''cer'', metric (cer_asr_att L)),
          (''wer'', metric (wer_asr_att L)),
          (''bleu'', metric (bleu_st_att L))]"
  using assms by (simp add: make_stats_def)

lemma forward_result:
  assumes "forward ext m u speech slen text tlen stx stxlen = Inr r"
  shows "\<exists>L. forward_body ext m u speech slen text tlen stx stxlen = Inr L \<and>
     r = (loss L,
          [(''loss'', Some (Tensor (num_val (loss L)) False)),
           (''loss_asr'', Some (Tensor (num_val (loss_asr L)) False)),
           (''loss_st'', Some (Tensor (num_val (loss_st L)) False)),
           (''acc_asr'', map_option (\<lambda>x. Tensor x False) (acc_asr_att L)),
           (''acc'', Some (Tensor (acc_st_att L) False)),
           (''cer_ctc'', map_option (\<lambda>x. Tensor x False) (cer_asr_ctc L)),
           (''cer'', map_option (\<lambda>x. Tensor x False) (cer_asr_att L)),
           (''wer'', map_option (\<lambda>x. Tensor x False) (wer_asr_att L)),
           (''bleu'', map_option (\<lambda>x. Tensor x False) (bleu_st_att L))],
          LongTensor (int (size0 speech)))"
proof -
  obtain L stats0 where body: "forward_body ext m u speech slen text tlen stx stxlen = Inr L"
    and ms: "make_stats L = Inr stats0"
    and r: "r = force_gatherable (loss L, stats0, batch_size L)"
    using forward_Inr [OF assms] by blast
  obtain v g va ga vs gs where t: "loss L = Tensor v g" "loss_asr L = Tensor va ga"
      "loss_st L = Tensor vs gs"
    using forward_body_loss_Tensor [OF body] by blast
  have bs: "batch_size L = size0 speech"
    using forward_body_stages [OF body] by force
  have "stats0 = [(''loss'', Some (Tensor v False)),
          (''loss_asr'', Some (Tensor va False)),
          (''loss_st'', Some (Tensor vs False)),
          (''acc_asr'', metric (acc_asr_att L)),
          (''acc'', Some (PyFloat (acc_st_att L))),
          (''cer_ctc'', metric (cer_asr_ctc L)),
          (''cer'', metric (cer_asr_att L)),
          (''wer'', metric (wer_asr_att L)),
          (''bleu'', metric (bleu_st_att L))]"
    using ms make_stats_Tensor [OF t] by simp
  then have "r = (loss L,
          [(''loss'', Some (Tensor (num_val (loss L)) False)),
           (''loss_asr'', Some (Tensor (num_val (loss_asr L)) False)),
           (''loss_st'', Some (Tensor (num_val (loss_st L)) False)),
           (''acc_asr'', map_option (\<lambda>x. Tensor x False) (acc_asr_att L)),
           (''acc'', Some (Tensor (acc_st_att L) False)),
           (''cer_ctc'', map_option (\<lambda>x. Tensor x False) (cer_asr_ctc L)),
           (''cer'', map_option (\<lambda>x. Tensor x False) (cer_asr_att L)),
           (''wer'', map_option (\<lambda>x. Tensor x False) (wer_asr_att L)),
           (''bleu'', map_option (\<lambda>x. Tensor x False) (bleu_st_att L))],
          LongTensor (int (size0 speech)))"
    using r t bs
    by (simp add: force_gatherable_def metric_def option.map_comp comp_def)
  with body show ?thesis by blast
qed


lemma forward_body_locals:
  assumes "forward_body ext m u speech slen text tlen stx stxlen = Inr L"
  shows "batch_size L = size0 speech"
    and "do_ctc_sample L = (u < ctc_sample_rate m)"
    and "asr_ctc_weight L = ctc_weight m (u < ctc_sample_rate m)"
    and "loss_st L = loss_st_att L"
    and "loss_asr L = combine_asr (asr_ctc_weight L) (loss_asr_ctc L) (loss_asr_att L)"
    and "loss L = combine_loss m (loss_st L) (loss_asr L)"
    and "speech_attn m"
    and "calc_mt_att_loss ext m (encoder_mt_out L) (encoder_mt_out_lens L) (text_cut L) tlen
           (encoder_out L) (encoder_out_lens L) = (loss_st_att L, acc_st_att L, bleu_st_att L)"
    and "encoder_mt m (hs_dec_asr L) (dec_asr_lengths L) = (encoder_mt_out L, encoder_mt_out_lens L)"
    and "encode m speech slen = Inr (encoder_out L, encoder_out_lens L)"
  using forward_body_stages [OF assms] by (force simp: st_branch_Inr)+

text \<open>
  C1. Whenever \<^verbatim>\<open>forward\<close> returns, the loss it returns is the one scalar tensor
  \<open>(1 - asr_weight) * loss_st + asr_weight * loss_asr\<close>, where \<open>loss_st\<close> is the ST
  attention loss and \<open>loss_asr = w * loss_asr_ctc + (1 - w) * loss_asr_att\<close> with
  \<open>w = 1\<close> when the sampling branch was taken in training mode and \<open>w = mtlalpha\<close>
  otherwise; the code takes \<open>loss_asr = loss_asr_att\<close> itself when \<open>w = 0\<close> and computes
  the weighted sum when \<open>w \<noteq> 0\<close>.
\<close>

theorem forward_loss_composition:
  assumes "forward ext m u speech slen text tlen stx stxlen = Inr (l, stats, w)"
  shows "\<exists>L. forward_body ext m u speech slen text tlen stx stxlen = Inr L \<and>
     l = loss L \<and> (\<exists>v g. l = Tensor v g) \<and>
     l = py_add (py_mul (py_sub (PyInt 1) (PyFloat (asr_weight m))) (loss_st L))
                (py_mul (PyFloat (asr_weight m)) (loss_asr L)) \<and>
     num_val l = (1 - asr_weight m) * num_val (loss_st L) + asr_weight m * num_val (loss_asr L) \<and>
     loss_st L = loss_st_att L \<and>
     loss_st_att L = fst (calc_mt_att_loss ext m (encoder_mt_out L) (encoder_mt_out_lens L)
                            (text_cut L) tlen (encoder_out L) (encoder_out_lens L)) \<and>
     asr_ctc_weight L = (if training m \<and> u < ctc_sample_rate m then 1 else mtlalpha m) \<and>
     num_val (loss_asr L) =
       asr_ctc_weight L * num_val (loss_asr_ctc L)
       + (1 - asr_ctc_weight L) * num_val (loss_asr_att L) \<and>
     (asr_ctc_weight L = 0 \<longrightarrow> loss_asr L = loss_asr_att L) \<and>
     (asr_ctc_weight L \<noteq> 0 \<longrightarrow>
        loss_asr L = py_add (py_mul (PyFloat (asr_ctc_weight L)) (loss_asr_ctc L))
                       (py_mul (py_sub (PyInt 1) (PyFloat (asr_ctc_weight L))) (loss_asr_att L)))"
proof -
  obtain L where body: "forward_body ext m u speech slen text tlen stx stxlen = Inr L"
    and l: "l = loss L"
    using forward_result [OF assms] by auto
  note loc = forward_body_locals [OF body]
  have t: "\<exists>v g. l = Tensor v g"
    using forward_body_loss_Tensor [OF body] l by blast
  have c: "l = py_add (py_mul (py_sub (PyInt 1) (PyFloat (asr_weight m))) (loss_st L))
                (py_mul (PyFloat (asr_weight m)) (loss_asr L))"
    using l loc(6) by (simp add: combine_loss_def)
  have n: "num_val l = (1 - asr_weight m) * num_val (loss_st L) + asr_weight m * num_val (loss_asr L)"
    using l loc(6) by (simp add: num_val_combine_loss)
  have st: "loss_st_att L = fst (calc_mt_att_loss ext m (encoder_mt_out L) (encoder_mt_out_lens L)
                            (text_cut L) tlen (encoder_out L) (encoder_out_lens L))"
    using loc(8) by simp
  have w: "asr_ctc_weight L = (if training m \<and> u < ctc_sample_rate m then 1 else mtlalpha m)"
    using loc(3) by (simp add: ctc_weight_def)
  have na: "num_val (loss_asr L) =
       asr_ctc_weight L * num_val (loss_asr_ctc L)
       + (1 - asr_ctc_weight L) * num_val (loss_asr_att L)"
    using loc(5) by (simp add: num_val_combine_asr)
  have z: "asr_ctc_weight L = 0 \<longrightarrow> loss_asr L = loss_asr_att L"
    using loc(5) by (simp add: combine_asr_def)
  have nz: "asr_ctc_weight L \<noteq> 0 \<longrightarrow>
        loss_asr L = py_add (py_mul (PyFloat (asr_ctc_weight L)) (loss_asr_ctc L))
                       (py_mul (py_sub (PyInt 1) (PyFloat (asr_ctc_weight L))) (loss_asr_att L))"
    using loc(5) by (simp add: combine_asr_def)
  show ?thesis
    using body l t c n loc(4) st w na z nz by blast
qed

theorem forward_loss_composition_witness:
  "forward ex_ext ex_model (3 / 4) ex_speech ex_speech_lengths ex_text ex_text_lengths
     (Some ex_src_text) (Some ex_src_text_lengths) =
   Inr (Tensor (41 / 8) True,
      [(''loss'', Some (Tensor (41 / 8) False)),
       (''loss_asr'', Some (Tensor (17 / 2) False)),
       (''loss_st'', Some (Tensor 4 False)),
       (''acc_asr'', Some (Tensor 1 False)),
       (''acc'', Some (Tensor 1 False)), (''cer_ctc'', None),
       (''cer'', None), (''wer'', None), (''bleu'', None)],
      LongTensor 2) \<and>
   map_sum id (\<lambda>L. (loss L, loss_st L, loss_asr L, loss_asr_ctc L, loss_asr_att L, asr_ctc_weight L))
     (forward_body ex_ext ex_model (3 / 4) ex_speech ex_speech_lengths ex_text ex_text_lengths
        (Some ex_src_text) (Some ex_src_text_lengths)) =
   Inr (Tensor (41 / 8) True, Tensor 4 True, Tensor (17 / 2) True, Tensor 2 True, Tensor 15 True,
        1 / 2) \<and>
   (41 / 8 :: real) = (1 - 1 / 4) * 4 + 1 / 4 * (17 / 2) \<and>
   (17 / 2 :: real) = 1 / 2 * 2 + (1 - 1 / 2) * 15 \<and>
   map_sum id (\<lambda>L. (loss L, loss_st L, loss_asr L, loss_asr_ctc L, loss_asr_att L, asr_ctc_weight L))
     (forward_body ex_ext ex_model (1 / 4) ex_speech ex_speech_lengths ex_text ex_text_lengths
        (Some ex_src_text) (Some ex_src_text_lengths)) =
   Inr (Tensor (7 / 2) True, Tensor 4 True, Tensor 2 True, Tensor 2 True, Tensor 14 True, 1)"
proof -
  have a: "map_sum id (\<lambda>L. (loss L, loss_st L, loss_asr L, loss_asr_ctc L, loss_asr_att L, asr_ctc_weight L))
     (forward_body ex_ext ex_model (3 / 4) ex_speech ex_speech_lengths ex_text ex_text_lengths
        (Some ex_src_text) (Some ex_src_text_lengths)) =
   Inr (Tensor (41 / 8) True, Tensor 4 True, Tensor (17 / 2) True, Tensor 2 True, Tensor 15 True,
        1 / 2)"
    by (simp add: eval_simps ex_model_fields)
  have b: "map_sum id (\<lambda>L. (loss L, loss_st L, loss_asr L, loss_asr_ctc L, loss_asr_att L, asr_ctc_weight L))
     (forward_body ex_ext ex_model (1 / 4) ex_speech ex_speech_lengths ex_text ex_text_lengths
        (Some ex_src_text) (Some ex_src_text_lengths)) =
   Inr (Tensor (7 / 2) True, Tensor 4 True, Tensor 2 True, Tensor 2 True, Tensor 14 True, 1)"
    by (simp add: eval_simps ex_model_fields)
  have c: "(41 / 8 :: real) = (1 - 1 / 4) * 4 + 1 / 4 * (17 / 2)"
    "(17 / 2 :: real) = 1 / 2 * 2 + (1 - 1 / 2) * 15"
    by simp_all
  show ?thesis
    using forward_loss_composition [OF ex_forward_teacher]
      forward_loss_composition [OF ex_forward_sampled] ex_forward_teacher a b c
    by - (intro conjI, assumption+)
qed

text \<open>
  C7. Whenever \<^verbatim>\<open>forward\<close> returns, it returns a triple: the combined loss, a scalar
  tensor; the statistics, a dictionary with exactly the keys \<open>loss\<close>, \<open>loss_asr\<close>,
  \<open>loss_st\<close>, \<open>acc_asr\<close>, \<open>acc\<close>, \<open>cer_ctc\<close>, \<open>cer\<close>, \<open>wer\<close> and \<open>bleu\<close>, whose
  first three entries carry the values of the three losses detached from the autograd
  graph and whose other entries are the metrics (or \<open>None\<close>); and the weight, the batch
  size \<^verbatim>\<open>speech.shape[0]\<close>.
\<close>

theorem forward_returns_triple:
  assumes "forward ext m u speech slen text tlen stx stxlen = Inr (l, stats, w)"
  shows "\<exists>L. forward_body ext m u speech slen text tlen stx stxlen = Inr L \<and>
     l = combine_loss m (loss_st L) (loss_asr L) \<and> (\<exists>v g. l = Tensor v g) \<and>
     w = LongTensor (int (size0 speech)) \<and>
     map fst stats = [''loss'', ''loss_asr'', ''loss_st'', ''acc_asr'', ''acc'', ''cer_ctc'',
                      ''cer'', ''wer'', ''bleu''] \<and>
     map_of stats ''loss'' = Some (Some (Tensor (num_val l) False)) \<and>
     map_of stats ''loss_asr'' = Some (Some (Tensor (num_val (loss_asr L)) False)) \<and>
     map_of stats ''loss_st'' = Some (Some (Tensor (num_val (loss_st L)) False)) \<and>
     map_of stats ''acc_asr'' = Some (map_option (\<lambda>x. Tensor x False) (acc_asr_att L)) \<and>
     map_of stats ''acc'' = Some (Some (Tensor (acc_st_att L) False)) \<and>
     map_of stats ''cer_ctc'' = Some (map_option (\<lambda>x. Tensor x False) (cer_asr_ctc L)) \<and>
     map_of stats ''cer'' = Some (map_option (\<lambda>x. Tensor x False) (cer_asr_att L)) \<and>
     map_of stats ''wer'' = Some (map_option (\<lambda>x. Tensor x False) (wer_asr_att L)) \<and>
     map_of stats ''bleu'' = Some (map_option (\<lambda>x. Tensor x False) (bleu_st_att L))"
proof -
  obtain L where body: "forward_body ext m u speech slen text tlen stx stxlen = Inr L"
    and r: "(l, stats, w) = (loss L,
          [(''loss'', Some (Tensor (num_val (loss L)) False)),
           (''loss_asr'', Some (Tensor (num_val (loss_asr L)) False)),
           (''loss_st'', Some (Tensor (num_val (loss_st L)) False)),
           (''acc_asr'', map_option (\<lambda>x. Tensor x False) (acc_asr_att L)),
           (''acc'', Some (Tensor (acc_st_att L) False)),
           (''cer_ctc'', map_option (\<lambda>x. Tensor x False) (cer_asr_ctc L)),
           (''cer'', map_option (\<lambda>x. Tensor x False) (cer_asr_att L)),
           (''wer'', map_option (\<lambda>x. Tensor x False) (wer_asr_att L)),
           (''bleu'', map_option (\<lambda>x. Tensor x False) (bleu_st_att L))],
          LongTensor (int (size0 speech)))"
    using forward_result [OF assms] by blast
  have l: "l = combine_loss m (loss_st L) (loss_asr L)"
    using r forward_body_locals(6) [OF body] by simp
  have t: "\<exists>v g. l = Tensor v g"
    using forward_body_loss_Tensor [OF body] r by simp
  have w: "w = LongTensor (int (size0 speech))"
    using r by simp
  have stats: "stats = [(''loss'', Some (Tensor (num_val l) False)),
           (''loss_asr'', Some (Tensor (num_val (loss_asr L)) False)),
           (''loss_st'', Some (Tensor (num_val (loss_st L)) False)),
           (''acc_asr'', map_option (\<lambda>x. Tensor x False) (acc_asr_att L)),
           (''acc'', Some (Tensor (acc_st_att L) False)),
           (''cer_ctc'', map_option (\<lambda>x. Tensor x False) (cer_asr_ctc L)),
           (''cer'', map_option (\<lambda>x. Tensor x False) (cer_asr_att L)),
           (''wer'', map_option (\<lambda>x. Tensor x False) (wer_asr_att L)),
           (''bleu'', map_option (\<lambda>x. Tensor x False) (bleu_st_att L))]"
    using r by simp
  have keys: "map fst stats = [''loss'', ''loss_asr'', ''loss_st'', ''acc_asr'', ''acc'', ''cer_ctc'',
                      ''cer'', ''wer'', ''bleu'']"
    by (simp add: stats)
  have e1: "map_of stats ''loss'' = Some (Some (Tensor (num_val l) False))"
    by (simp add: stats)
  have e2: "map_of stats ''loss_asr'' = Some (Some (Tensor (num_val (loss_asr L)) False))"
    by (simp add: stats)
  have e3: "map_of stats ''loss_st'' = Some (Some (Tensor (num_val (loss_st L)) False))"
    by (simp add: stats)
  have e4: "map_of stats ''acc_asr'' = Some (map_option (\<lambda>x. Tensor x False) (acc_asr_att L))"
    by (simp add: stats)
  have e5: "map_of stats ''acc'' = Some (Some (Tensor (acc_st_att L) False))"
    by (simp add: stats)
  have e6: "map_of stats ''cer_ctc'' = Some (map_option (\<lambda>x. Tensor x False) (cer_asr_ctc L))"
    by (simp add: stats)
  have e7: "map_of stats ''cer'' = Some (map_option (\<lambda>x. Tensor x False) (cer_asr_att L))"
    by (simp add: stats)
  have e8: "map_of stats ''wer'' = Some (map_option (\<lambda>x. Tensor x False) (wer_asr_att L))"
    by (simp add: stats)
  have e9: "map_of stats ''bleu'' = Some (map_option (\<lambda>x. Tensor x False) (bleu_st_att L))"
    by (simp add: stats)
  show ?thesis
    by (intro exI [of _ L] conjI) (fact body l t w keys e1 e2 e3 e4 e5 e6 e7 e8 e9)+
qed

theorem forward_returns_triple_witness:
  "forward ex_ext (train False ex_model) (1 / 4) ex_speech ex_speech_lengths ex_text
     ex_text_lengths (Some ex_src_text) (Some ex_src_text_lengths) =
   Inr (Tensor (41 / 8) True,
      [(''loss'', Some (Tensor (41 / 8) False)),
       (''loss_asr'', Some (Tensor (17 / 2) False)),
       (''loss_st'', Some (Tensor 4 False)),
       (''acc_asr'', Some (Tensor 1 False)),
       (''acc'', Some (Tensor 1 False)),
       (''cer_ctc'', Some (Tensor 0 False)),
       (''cer'', Some (Tensor 0 False)), (''wer'', Some (Tensor 0 False)),
       (''bleu'', Some (Tensor 0 False))],
      LongTensor 2) \<and>
   size0 ex_speech = 2 \<and>
   map_sum id (\<lambda>L. (loss L, loss_st L, loss_asr L))
     (forward_body ex_ext (train False ex_model) (1 / 4) ex_speech ex_speech_lengths ex_text
        ex_text_lengths (Some ex_src_text) (Some ex_src_text_lengths)) =
   Inr (Tensor (41 / 8) True, Tensor 4 True, Tensor (17 / 2) True)"
proof -
  have a: "size0 ex_speech = 2"
    by (simp add: size0_def ex_speech_def)
  have b: "map_sum id (\<lambda>L. (loss L, loss_st L, loss_asr L))
     (forward_body ex_ext (train False ex_model) (1 / 4) ex_speech ex_speech_lengths ex_text
        ex_text_lengths (Some ex_src_text) (Some ex_src_text_lengths)) =
   Inr (Tensor (41 / 8) True, Tensor 4 True, Tensor (17 / 2) True)"
    by (simp add: eval_simps ex_model_fields)
  show ?thesis
    using forward_returns_triple [OF ex_forward_eval] ex_forward_eval a b
    by - (intro conjI, assumption+)
qed

subsection \<open>The branches of forward\<close>

lemma forward_inputs_Inr:
  assumes "forward_inputs speech slen text tlen stx stxlen = Inr inp"
  shows "\<exists>src src_lens tmax smax. stx = Some src \<and> stxlen = Some src_lens \<and>
     tensor_max tlen = Inr tmax \<and> tensor_max src_lens = Inr smax \<and>
     inp = (slice_cols text tmax, slice_cols src smax, src_lens) \<and>
     size0 speech = length slen \<and> length slen = size0 text \<and> size0 text = length tlen \<and>
     size0 text = size0 src \<and> size0 src = length src_lens"
  using assms
  by (auto simp: forward_inputs_def bindE_eq_Inr split: if_splits option.splits)

lemma forward_body_branches:
  assumes "forward_body ext m u speech slen text tlen stx stxlen = Inr L"
  shows "\<exists>src src_lens tmax smax. stx = Some src \<and> stxlen = Some src_lens \<and>
     tensor_max tlen = Inr tmax \<and> tensor_max src_lens = Inr smax \<and>
     text_cut L = slice_cols text tmax \<and> src_text_cut L = slice_cols src smax \<and>
     asr_branch ext m (u < ctc_sample_rate m) (encoder_out L) (encoder_out_lens L)
       (src_text_cut L) src_lens
       = Inr (loss_asr_att L, acc_asr_att L, cer_asr_att L, wer_asr_att L, hs_dec_asr L, ys_hat L) \<and>
     ctc_branch ext m (encoder_out L) (encoder_out_lens L) (src_text_cut L) src_lens
       = Inr (loss_asr_ctc L, cer_asr_ctc L) \<and>
     mt_input_lengths m (u < ctc_sample_rate m) (ys_hat L) src_lens = Inr (dec_asr_lengths L)"
proof -
  obtain inp enc asr ctcr dec_lens where
    inp: "forward_inputs speech slen text tlen stx stxlen = Inr inp"
    and asr: "asr_branch ext m (u < ctc_sample_rate m) (fst enc) (snd enc) (fst (snd inp))
            (snd (snd inp)) = Inr asr"
    and ctcr: "ctc_branch ext m (fst enc) (snd enc) (fst (snd inp)) (snd (snd inp)) = Inr ctcr"
    and dl: "mt_input_lengths m (u < ctc_sample_rate m) (snd (snd (snd (snd (snd asr)))))
            (snd (snd inp)) = Inr dec_lens"
    and L: "text_cut L = fst inp" "src_text_cut L = fst (snd inp)" "encoder_out L = fst enc"
      "encoder_out_lens L = snd enc" "ys_hat L = snd (snd (snd (snd (snd asr))))"
      "loss_asr_att L = fst asr" "acc_asr_att L = fst (snd asr)"
      "cer_asr_att L = fst (snd (snd asr))" "wer_asr_att L = fst (snd (snd (snd asr)))"
      "hs_dec_asr L = fst (snd (snd (snd (snd asr))))" "loss_asr_ctc L = fst ctcr"
      "cer_asr_ctc L = snd ctcr" "dec_asr_lengths L = dec_lens"
    using forward_body_stages [OF assms] by force
  obtain src src_lens tmax smax where i: "stx = Some src" "stxlen = Some src_lens"
     "tensor_max tlen = Inr tmax" "tensor_max src_lens = Inr smax"
     "inp = (slice_cols text tmax, slice_cols src smax, src_lens)"
    using forward_inputs_Inr [OF inp] by blast
  show ?thesis
    using i asr ctcr dl by (simp add: L)
qed

subsection \<open>The CTC branch\<close>

lemma calc_ctc_loss_Some:
  assumes "ctc m = Some c"
  shows "calc_ctc_loss ext m enc el ys yl =
     Inr (Tensor (fst (ctc_forward c enc el ys yl)) (snd (ctc_forward c enc el ys yl)),
          (case asr_error_calculator m of
             None \<Rightarrow> None
           | Some calc \<Rightarrow> if \<not> training m then asr_calc_ctc calc (ctc_argmax c enc) ys else None))"
  using assms by (simp add: calc_ctc_loss_def get_ctc_def Let_def split: option.splits)

text \<open>
  C6. On an instance the constructor has built (in either mode), the CTC loss is
  computed if and only if \<open>mtlalpha > 0\<close>. With \<open>mtlalpha > 0\<close> the instance stores the
  \<open>ctc\<close> module it was given and the CTC branch returns that module's loss on
  (\<open>encoder_out\<close>, \<open>encoder_out_lens\<close>, \<open>src_text\<close>, \<open>src_text_lengths\<close>). Otherwise
  \<open>mtlalpha = 0\<close>, the instance has no \<open>ctc\<close> attribute, the branch is skipped and
  \<open>loss_asr_ctc\<close> is the integer 0 and \<open>cer_asr_ctc\<close> is \<open>None\<close>. In a forward pass that
  reaches the loss computation, \<open>loss_asr_ctc\<close> and \<open>cer_asr_ctc\<close> are the result of
  that branch on the speech encoder output and the truncated \<^verbatim>\<open>src_text\<close>.
\<close>

theorem ctc_branch_iff_mtlalpha:
  assumes "ESPnetSTMDSampModel_init ext a = Inr m0" and "m = train mode m0"
  shows "(mtlalpha m > 0 \<longrightarrow>
            ctc m = Some (arg_ctc a) \<and>
            (\<exists>cer. ctc_branch ext m enc el src sl =
               Inr (Tensor (fst (ctc_forward (arg_ctc a) enc el src sl))
                           (snd (ctc_forward (arg_ctc a) enc el src sl)), cer))) \<and>
         (\<not> mtlalpha m > 0 \<longrightarrow>
            mtlalpha m = 0 \<and> ctc m = None \<and>
            ctc_branch ext m enc el src sl = Inr (PyInt 0, None)) \<and>
         (\<forall>L. forward_body ext m u speech slen text tlen stx stxlen = Inr L \<longrightarrow>
            (\<exists>src_lens. stxlen = Some src_lens \<and>
               ctc_branch ext m (encoder_out L) (encoder_out_lens L) (src_text_cut L) src_lens
                 = Inr (loss_asr_ctc L, cer_asr_ctc L)))"
proof -
  have al: "mtlalpha m = arg_mtlalpha a"
    and c: "ctc m = (if arg_mtlalpha a > 0 then Some (arg_ctc a) else None)"
    using init_fields(10,23) [OF assms(1)] assms(2) by (simp_all add: train_def)
  have range: "0 \<le> arg_mtlalpha a"
    using init_Inr_pre [OF assms(1)] by simp
  have pos: "ctc m = Some (arg_ctc a) \<and>
            (\<exists>cer. ctc_branch ext m enc el src sl =
               Inr (Tensor (fst (ctc_forward (arg_ctc a) enc el src sl))
                           (snd (ctc_forward (arg_ctc a) enc el src sl)), cer))"
    if "mtlalpha m > 0"
  proof -
    have s: "ctc m = Some (arg_ctc a)" using that al c by simp
    show ?thesis
      using that s by (simp add: ctc_branch_def calc_ctc_loss_Some)
  qed
  have zero: "mtlalpha m = 0 \<and> ctc m = None \<and>
            ctc_branch ext m enc el src sl = Inr (PyInt 0, None)"
    if "\<not> mtlalpha m > 0"
    using that al c range by (simp add: ctc_branch_def)
  have fw: "\<exists>src_lens. stxlen = Some src_lens \<and>
               ctc_branch ext m (encoder_out L) (encoder_out_lens L) (src_text_cut L) src_lens
                 = Inr (loss_asr_ctc L, cer_asr_ctc L)"
    if "forward_body ext m u speech slen text tlen stx stxlen = Inr L" for L
    using forward_body_branches [OF that] by blast
  show ?thesis using pos zero fw by blast
qed

lemma ex_forward_att_only:
  "forward ex_ext ex_model_att_only (3 / 4) ex_speech ex_speech_lengths ex_text ex_text_lengths
     (Some ex_src_text) (Some ex_src_text_lengths) =
   Inr (Tensor (27 / 4) True,
      [(''loss'', Some (Tensor (27 / 4) False)),
       (''loss_asr'', Some (Tensor 15 False)),
       (''loss_st'', Some (Tensor 4 False)),
       (''acc_asr'', Some (Tensor 1 False)),
       (''acc'', Some (Tensor 1 False)), (''cer_ctc'', None),
       (''cer'', None), (''wer'', None), (''bleu'', None)],
      LongTensor 2)"
  by (simp add: eval_simps ex_model_att_only_fields)

theorem ctc_branch_iff_mtlalpha_witness:
  "ESPnetSTMDSampModel_init ex_ext ex_args = Inr ex_model \<and>
   mtlalpha (train False ex_model) = 1 / 2 \<and> ctc (train False ex_model) = Some ex_ctc \<and>
   ctc_branch ex_ext (train False ex_model) ex_speech ex_speech_lengths ex_src_text
     ex_src_text_lengths = Inr (Tensor 2 True, Some 0) \<and>
   ESPnetSTMDSampModel_init ex_ext ex_args_att_only = Inr ex_model_att_only \<and>
   mtlalpha (train True ex_model_att_only) = 0 \<and> ctc (train True ex_model_att_only) = None \<and>
   ctc_branch ex_ext (train True ex_model_att_only) ex_speech ex_speech_lengths ex_src_text
     ex_src_text_lengths = Inr (PyInt 0, None) \<and>
   map_sum id (\<lambda>L. (loss_asr_ctc L, cer_asr_ctc L))
     (forward_body ex_ext (train True ex_model_att_only) (3 / 4) ex_speech ex_speech_lengths
        ex_text ex_text_lengths (Some ex_src_text) (Some ex_src_text_lengths))
     = Inr (PyInt 0, None) \<and>
   map_sum id (\<lambda>L. (loss_asr_ctc L, cer_asr_ctc L))
     (forward_body ex_ext (train False ex_model) (3 / 4) ex_speech ex_speech_lengths ex_text
        ex_text_lengths (Some ex_src_text) (Some ex_src_text_lengths))
     = Inr (Tensor 2 True, Some 0)"
proof -
  have a: "mtlalpha (train False ex_model) = 1 / 2" "ctc (train False ex_model) = Some ex_ctc"
    "mtlalpha (train True ex_model_att_only) = 0" "ctc (train True ex_model_att_only) = None"
    by (simp_all add: train_def ex_model_fields ex_model_att_only_fields ex_args_simps)
  have b: "ctc_branch ex_ext (train False ex_model) ex_speech ex_speech_lengths ex_src_text
      ex_src_text_lengths = Inr (Tensor 2 True, Some 0)"
    by (simp add: eval_simps ex_model_fields)
  have c: "ctc_branch ex_ext (train True ex_model_att_only) ex_speech ex_speech_lengths
      ex_src_text ex_src_text_lengths = Inr (PyInt 0, None)"
    by (simp add: eval_simps ex_model_att_only_fields)
  have d: "map_sum id (\<lambda>L. (loss_asr_ctc L, cer_asr_ctc L))
     (forward_body ex_ext (train True ex_model_att_only) (3 / 4) ex_speech ex_speech_lengths
        ex_text ex_text_lengths (Some ex_src_text) (Some ex_src_text_lengths))
     = Inr (PyInt 0, None)"
    by (simp add: eval_simps ex_model_att_only_fields)
  have e: "map_sum id (\<lambda>L. (loss_asr_ctc L, cer_asr_ctc L))
     (forward_body ex_ext (train False ex_model) (3 / 4) ex_speech ex_speech_lengths ex_text
        ex_text_lengths (Some ex_src_text) (Some ex_src_text_lengths))
     = Inr (Tensor 2 True, Some 0)"
    by (simp add: eval_simps ex_model_fields)
  show ?thesis
    using ctc_branch_iff_mtlalpha [OF ex_model_init refl, of False]
      ctc_branch_iff_mtlalpha [OF ex_model_att_only_init refl, of True]
      ex_model_init ex_model_att_only_init a b c d e
    by - (intro conjI, assumption+)
qed

subsection \<open>The unused weight\<close>

lemma encode_mt_weight: "encode (m\<lparr>mt_weight := x\<rparr>) speech slen = encode m speech slen"
  by (simp add: encode_def extract_feats_def Let_def cong: if_cong option.case_cong)

lemma asr_branch_mt_weight:
  "asr_branch ext (m\<lparr>mt_weight := x\<rparr>) s enc el src sl = asr_branch ext m s enc el src sl"
  by (simp add: asr_branch_def calc_asr_att_loss_def get_ctc_def Let_def cong: if_cong option.case_cong)

lemma ctc_branch_mt_weight:
  "ctc_branch ext (m\<lparr>mt_weight := x\<rparr>) enc el src sl = ctc_branch ext m enc el src sl"
  by (simp add: ctc_branch_def calc_ctc_loss_def get_ctc_def Let_def cong: if_cong option.case_cong)

lemma mt_input_lengths_mt_weight:
  "mt_input_lengths (m\<lparr>mt_weight := x\<rparr>) s smp sl = mt_input_lengths m s smp sl"
  by (simp add: mt_input_lengths_def)

lemma st_branch_mt_weight:
  "st_branch ext (m\<lparr>mt_weight := x\<rparr>) emt emtl text tlen enc el
     = st_branch ext m emt emtl text tlen enc el"
  by (simp add: st_branch_def calc_mt_att_loss_def Let_def cong: if_cong option.case_cong)

lemma combine_loss_mt_weight:
  "combine_loss (m\<lparr>mt_weight := x\<rparr>) l_st l_asr = combine_loss m l_st l_asr"
  by (simp add: combine_loss_def)

lemma ctc_weight_mt_weight: "ctc_weight (m\<lparr>mt_weight := x\<rparr>) s = ctc_weight m s"
  by (simp add: ctc_weight_def)

lemma forward_body_mt_weight:
  "forward_body ext (m\<lparr>mt_weight := x\<rparr>) u speech slen text tlen stx stxlen
     = forward_body ext m u speech slen text tlen stx stxlen"
  by (simp add: forward_body_def encode_mt_weight asr_branch_mt_weight ctc_branch_mt_weight
      mt_input_lengths_mt_weight st_branch_mt_weight combine_loss_mt_weight ctc_weight_mt_weight
      Let_def cong: if_cong)

lemma forward_mt_weight:
  "forward ext (m\<lparr>mt_weight := x\<rparr>) u speech slen text tlen stx stxlen
     = forward ext m u speech slen text tlen stx stxlen"
  by (simp add: forward_def forward_body_mt_weight)

lemma train_mt_weight: "train mode (m\<lparr>mt_weight := x\<rparr>) = (train mode m)\<lparr>mt_weight := x\<rparr>"
  by (simp add: train_def)

lemma init_mt_weight:
  assumes "ESPnetSTMDSampModel_init ext a = Inr m"
    and "ESPnetSTMDSampModel_init ext (a\<lparr>arg_mt_weight := x\<rparr>) = Inr m'"
  shows "m' = m\<lparr>mt_weight := x\<rparr>"
proof -
  have p: "0 < arg_asr_weight a \<and> arg_asr_weight a < 1 \<and>
        0 \<le> arg_mt_weight a \<and> arg_mt_weight a < 1 \<and>
        0 \<le> arg_mtlalpha a \<and> arg_mtlalpha a < 1"
    using assms(1) by (rule init_Inr_pre)
  have p': "0 \<le> x \<and> x < 1"
    using init_Inr_pre [OF assms(2)] by simp
  show ?thesis
    using assms p p' unfolding ESPnetSTMDSampModel_init_def
    by (simp only: simp_thms if_True if_False bindE_eq_Inr init_args.simps) auto
qed


text \<open>
  C10. Two instances built from arguments that differ in \<open>mt_weight\<close> only, put in the
  same mode, return the same result from \<^verbatim>\<open>forward\<close> (the same triple or the same
  exception) on the same inputs and the same random draw.
\<close>

theorem mt_weight_no_effect:
  assumes "ESPnetSTMDSampModel_init ext a = Inr m"
    and "ESPnetSTMDSampModel_init ext (a\<lparr>arg_mt_weight := x\<rparr>) = Inr m'"
  shows "forward ext (train mode m') u speech slen text tlen stx stxlen
           = forward ext (train mode m) u speech slen text tlen stx stxlen"
  using init_mt_weight [OF assms]
  by (simp add: train_mt_weight forward_mt_weight)

lemma ex_model_mt_init: "ESPnetSTMDSampModel_init ex_ext ex_args_mt = Inr ex_model_mt"
proof -
  have "\<not> isl (ESPnetSTMDSampModel_init ex_ext ex_args_mt)"
    by (rule init_success [where xs = "[]" and ys = "[]"])
       (simp_all add: ex_args_mt_def ex_args_def ex_defaults_def default_args_def)
  then show ?thesis
    by (cases "ESPnetSTMDSampModel_init ex_ext ex_args_mt") (simp_all add: ex_model_mt_def)
qed

theorem mt_weight_no_effect_witness:
  "ESPnetSTMDSampModel_init ex_ext ex_args = Inr ex_model \<and>
   ESPnetSTMDSampModel_init ex_ext (ex_args\<lparr>arg_mt_weight := 1 / 2\<rparr>) = Inr ex_model_mt \<and>
   mt_weight ex_model = 0 \<and> mt_weight ex_model_mt = 1 / 2 \<and>
   forward ex_ext (train True ex_model_mt) (3 / 4) ex_speech ex_speech_lengths ex_text
     ex_text_lengths (Some ex_src_text) (Some ex_src_text_lengths)
   = forward ex_ext (train True ex_model) (3 / 4) ex_speech ex_speech_lengths ex_text
     ex_text_lengths (Some ex_src_text) (Some ex_src_text_lengths) \<and>
   forward ex_ext (train True ex_model_mt) (3 / 4) ex_speech ex_speech_lengths ex_text
     ex_text_lengths (Some ex_src_text) (Some ex_src_text_lengths)
   = Inr (Tensor (41 / 8) True,
      [(''loss'', Some (Tensor (41 / 8) False)),
       (''loss_asr'', Some (Tensor (17 / 2) False)),
       (''loss_st'', Some (Tensor 4 False)),
       (''acc_asr'', Some (Tensor 1 False)),
       (''acc'', Some (Tensor 1 False)), (''cer_ctc'', None),
       (''cer'', None), (''wer'', None), (''bleu'', None)],
      LongTensor 2)"
proof -
  have i: "ESPnetSTMDSampModel_init ex_ext (ex_args\<lparr>arg_mt_weight := 1 / 2\<rparr>) = Inr ex_model_mt"
    using ex_model_mt_init by (simp only: ex_args_mt_def)
  have w: "mt_weight ex_model = 0" "mt_weight ex_model_mt = 1 / 2"
    by (simp_all add: ex_model_fields init_fields [OF ex_model_mt_init] ex_args_mt_def
        ex_args_simps)
  have e: "forward ex_ext (train True ex_model_mt) (3 / 4) ex_speech ex_speech_lengths ex_text
     ex_text_lengths (Some ex_src_text) (Some ex_src_text_lengths)
   = Inr (Tensor (41 / 8) True,
      [(''loss'', Some (Tensor (41 / 8) False)),
       (''loss_asr'', Some (Tensor (17 / 2) False)),
       (''loss_st'', Some (Tensor 4 False)),
       (''acc_asr'', Some (Tensor 1 False)),
       (''acc'', Some (Tensor 1 False)), (''cer_ctc'', None),
       (''cer'', None), (''wer'', None), (''bleu'', None)],
      LongTensor 2)"
    by (simp add: eval_simps init_fields [OF ex_model_mt_init] ex_args_mt_def)
  show ?thesis
    using mt_weight_no_effect [OF ex_model_init i, of True "3 / 4" ex_speech ex_speech_lengths
        ex_text ex_text_lengths "Some ex_src_text" "Some ex_src_text_lengths"]
      ex_model_init i w e
    by - (intro conjI, assumption+)
qed

subsection \<open>The sampled transcript\<close>

lemma groupby_keys_remdups_adj: "groupby_keys xs = remdups_adj xs"
  by (induction xs rule: groupby_keys.induct) (simp_all add: remdups_adj_Cons')

lemma substitute_empty_map2:
  "i + length hyps \<le> length src \<Longrightarrow>
   substitute_empty i hyps src =
     Inr (map2 (\<lambda>h s. if h = [] then filter (\<lambda>x. x \<noteq> - 1) s else h) hyps (drop i src))"
proof (induction hyps arbitrary: i)
  case Nil
  then show ?case by simp
next
  case (Cons h hyps)
  then have i: "i < length src" and rest: "Suc i + length hyps \<le> length src"
    by simp_all
  have d: "drop i src = src ! i # drop (Suc i) src"
    using i by (simp add: Cons_nth_drop_Suc)
  show ?case
    using Cons.IH [OF rest] i by (simp add: d)
qed

lemma fold_max_nat: "fold max xs (a::nat) = Max (set (a # xs))"
  by (rule Max.set_eq_fold [symmetric])

lemma pad_sequence_spec:
  assumes "hyps \<noteq> []"
  shows "pad_sequence hyps (- 1) = Inr (spec_right_pad hyps)"
proof -
  have "set (map length hyps) \<noteq> {}" using assms by simp
  then have "Max (set (0 # map length hyps)) = Max (set (map length hyps))"
    by (simp add: max_def)
  then show ?thesis
    using assms by (simp add: pad_sequence_def spec_right_pad_def fold_max_nat Let_def)
qed

lemma map2_transcript:
  "map2 (\<lambda>h s. if h = [] then filter (\<lambda>x. x \<noteq> - 1) s else h)
        (map (filter (\<lambda>x. x \<noteq> 0) \<circ> groupby_keys) ys) src
   = map2 spec_transcript ys src"
  by (simp add: zip_map1 groupby_keys_remdups_adj spec_transcript_def Let_def split_def)

lemma ctc_sample_spec:
  assumes "length ys_argmax = length src" and "ys_argmax \<noteq> []"
  shows "ctc_sample ys_argmax src = Inr (spec_ctc_sample ys_argmax src)"
proof -
  have s: "substitute_empty 0 (map (filter (\<lambda>x. x \<noteq> 0) \<circ> groupby_keys) ys_argmax) src
      = Inr (map2 spec_transcript ys_argmax src)"
    using assms(1)
      substitute_empty_map2 [of 0 "map (filter (\<lambda>x. x \<noteq> 0) \<circ> groupby_keys) ys_argmax" src]
    by (simp add: map2_transcript)
  have ne: "map2 spec_transcript ys_argmax src \<noteq> []"
    using assms by (cases ys_argmax; cases src) simp_all
  show ?thesis
    unfolding ctc_sample_def spec_ctc_sample_def Let_def map_map s bindE_Inr
      pad_sequence_spec [OF ne]
    by (rule refl)
qed


lemma spec_right_pad_row:
  assumes "i < length hyps"
  shows "spec_right_pad hyps ! i =
           hyps ! i @ replicate (Max (set (map length hyps)) - length (hyps ! i)) (- 1)"
    and "length (spec_right_pad hyps ! i) = Max (set (map length hyps))"
proof -
  show r: "spec_right_pad hyps ! i =
           hyps ! i @ replicate (Max (set (map length hyps)) - length (hyps ! i)) (- 1)"
    using assms by (simp add: spec_right_pad_def)
  have "length (hyps ! i) \<in> set (map length hyps)"
    using assms by simp
  then have "length (hyps ! i) \<le> Max (set (map length hyps))"
    by (intro Max_ge) simp_all
  then show "length (spec_right_pad hyps ! i) = Max (set (map length hyps))"
    by (simp add: r)
qed

lemma forward_body_sizes:
  assumes "forward_body ext m u speech slen text tlen stx stxlen = Inr L"
  shows "0 < size0 speech" and "size0 (src_text_cut L) = size0 speech"
    and "size0 (text_cut L) = size0 speech"
proof -
  obtain inp where inp: "forward_inputs speech slen text tlen stx stxlen = Inr inp"
    and L: "text_cut L = fst inp" "src_text_cut L = fst (snd inp)"
    using forward_body_stages [OF assms] by force
  obtain src src_lens tmax smax where i: "tensor_max tlen = Inr tmax"
     "inp = (slice_cols text tmax, slice_cols src smax, src_lens)"
     "size0 speech = length slen" "length slen = size0 text" "size0 text = length tlen"
     "size0 text = size0 src"
    using forward_inputs_Inr [OF inp] by blast
  have "tlen \<noteq> []"
    using i(1) by (auto simp: tensor_max_def)
  then show "0 < size0 speech"
    using i by simp
  show "size0 (src_text_cut L) = size0 speech" "size0 (text_cut L) = size0 speech"
    using i by (simp_all add: L size0_def slice_cols_def)
qed

text \<open>
  C4. When the sampling branch is taken (training mode and a draw below
  \<open>ctc_sample_rate\<close>) and \<^verbatim>\<open>forward\<close> reaches the loss computation, the instance has a
  \<open>ctc\<close> module and, provided its argmax has one row for each batch element, the
  transcript and the lengths bound to \<^verbatim>\<open>ys_hat\<close> and \<^verbatim>\<open>ys_hat_lens\<close> are those of
  the specification's algorithm: for every batch element the recorded length is the
  length of its transcript (argmax row with runs collapsed and blanks removed, or the
  \<^verbatim>\<open>src_text\<close> row without \<open>-1\<close> when that is empty), its padded row starts with the
  transcript and continues with \<open>-1\<close> only, and all padded rows have the same length.
\<close>

theorem sampled_transcript_algorithm:
  assumes "forward_body ext m u speech slen text tlen stx stxlen = Inr L"
    and "training m" and "u < ctc_sample_rate m"
  shows "\<exists>c. ctc m = Some c \<and>
     (length (ctc_argmax c (encoder_out L)) = size0 speech \<longrightarrow>
        ys_hat L = Some (spec_ctc_sample (ctc_argmax c (encoder_out L)) (src_text_cut L)) \<and>
        (\<exists>yh yl. ys_hat L = Some (yh, yl) \<and> length yh = size0 speech \<and>
           length yl = size0 speech \<and>
           (\<forall>i < size0 speech.
              yl ! i = int (length (spec_transcript (ctc_argmax c (encoder_out L) ! i)
                                      (src_text_cut L ! i))) \<and>
              take (nat (yl ! i)) (yh ! i)
                = spec_transcript (ctc_argmax c (encoder_out L) ! i) (src_text_cut L ! i) \<and>
              set (drop (nat (yl ! i)) (yh ! i)) \<subseteq> {- 1} \<and>
              length (yh ! i) = length (yh ! 0))))"
proof -
  obtain src_lens where
    asr: "asr_branch ext m (u < ctc_sample_rate m) (encoder_out L) (encoder_out_lens L)
       (src_text_cut L) src_lens
       = Inr (loss_asr_att L, acc_asr_att L, cer_asr_att L, wer_asr_att L, hs_dec_asr L, ys_hat L)"
    using forward_body_branches [OF assms(1)] by blast
  obtain c smp where c: "ctc m = Some c"
    and smp: "ctc_sample (ctc_argmax c (encoder_out L)) (src_text_cut L) = Inr smp"
    and y: "ys_hat L = Some smp"
    using asr_branch_cases [OF asr] assms(2,3) by auto
  have sz: "0 < size0 speech" "length (src_text_cut L) = size0 speech"
    using forward_body_sizes [OF assms(1)] by (simp_all add: size0_def)
  have main: "ys_hat L = Some (spec_ctc_sample (ctc_argmax c (encoder_out L)) (src_text_cut L)) \<and>
        (\<exists>yh yl. ys_hat L = Some (yh, yl) \<and> length yh = size0 speech \<and>
           length yl = size0 speech \<and>
           (\<forall>i < size0 speech.
              yl ! i = int (length (spec_transcript (ctc_argmax c (encoder_out L) ! i)
                                      (src_text_cut L ! i))) \<and>
              take (nat (yl ! i)) (yh ! i)
                = spec_transcript (ctc_argmax c (encoder_out L) ! i) (src_text_cut L ! i) \<and>
              set (drop (nat (yl ! i)) (yh ! i)) \<subseteq> {- 1} \<and>
              length (yh ! i) = length (yh ! 0)))"
    if len: "length (ctc_argmax c (encoder_out L)) = size0 speech"
  proof -
    define am where "am = ctc_argmax c (encoder_out L)"
    define st where "st = src_text_cut L"
    define hyps where "hyps = map2 spec_transcript am st"
    have l: "length am = size0 speech" "length st = size0 speech"
      using len sz by (simp_all add: am_def st_def)
    have ne: "am \<noteq> []" using l sz by auto
    have eq: "smp = spec_ctc_sample am st"
      using smp ctc_sample_spec [of am st] l ne by (simp add: am_def st_def)
    have lh: "length hyps = size0 speech"
      using l by (simp add: hyps_def)
    have hi: "hyps ! i = spec_transcript (am ! i) (st ! i)" if "i < size0 speech" for i
      using that l by (simp add: hyps_def)
    have rows: "int (length (hyps ! i)) = int (length (spec_transcript (am ! i) (st ! i))) \<and>
        take (length (hyps ! i)) (spec_right_pad hyps ! i) = spec_transcript (am ! i) (st ! i) \<and>
        set (drop (length (hyps ! i)) (spec_right_pad hyps ! i)) \<subseteq> {- 1} \<and>
        length (spec_right_pad hyps ! i) = length (spec_right_pad hyps ! 0)"
      if "i < size0 speech" for i
      using that sz(1) lh hi [OF that]
        spec_right_pad_row [of i hyps] spec_right_pad_row [of 0 hyps]
      by auto
    have a: "ys_hat L = Some (spec_ctc_sample am st)"
      using y eq by simp
    have b: "\<exists>yh yl. ys_hat L = Some (yh, yl) \<and> length yh = size0 speech \<and>
           length yl = size0 speech \<and>
           (\<forall>i < size0 speech.
              yl ! i = int (length (spec_transcript (am ! i) (st ! i))) \<and>
              take (nat (yl ! i)) (yh ! i) = spec_transcript (am ! i) (st ! i) \<and>
              set (drop (nat (yl ! i)) (yh ! i)) \<subseteq> {- 1} \<and>
              length (yh ! i) = length (yh ! 0))"
    proof (intro exI [of _ "spec_right_pad hyps"] exI [of _ "map (\<lambda>h. int (length h)) hyps"]
        conjI allI impI)
      show "ys_hat L = Some (spec_right_pad hyps, map (\<lambda>h. int (length h)) hyps)"
        using a by (simp add: spec_ctc_sample_def Let_def hyps_def)
      show "length (spec_right_pad hyps) = size0 speech"
        using lh by (simp add: spec_right_pad_def)
      show "length (map (\<lambda>h. int (length h)) hyps) = size0 speech"
        using lh by simp
    next
      fix i assume i: "i < size0 speech"
      then have n: "map (\<lambda>h. int (length h)) hyps ! i = int (length (hyps ! i))"
        using lh by simp
      show "map (\<lambda>h. int (length h)) hyps ! i = int (length (spec_transcript (am ! i) (st ! i)))"
        using rows [OF i] n by (simp add: hi [OF i])
      show "take (nat (map (\<lambda>h. int (length h)) hyps ! i)) (spec_right_pad hyps ! i)
              = spec_transcript (am ! i) (st ! i)"
        using rows [OF i] n by (simp add: hi [OF i])
      show "set (drop (nat (map (\<lambda>h. int (length h)) hyps ! i)) (spec_right_pad hyps ! i)) \<subseteq> {- 1}"
        using rows [OF i] n by (simp add: hi [OF i])
      show "length (spec_right_pad hyps ! i) = length (spec_right_pad hyps ! 0)"
        using rows [OF i] by simp
    qed
    show ?thesis
      using a b by (simp add: am_def st_def)
  qed
  show ?thesis using c main by blast
qed


theorem sampled_transcript_algorithm_witness:
  "training ex_model \<and> 1 / 4 < ctc_sample_rate ex_model \<and>
   \<not> isl (forward_body ex_ext ex_model (1 / 4) ex_speech ex_speech_lengths ex_text
            ex_text_lengths (Some ex_src_text) (Some ex_src_text_lengths)) \<and>
   ctc ex_model = Some ex_ctc \<and>
   ctc_argmax ex_ctc ex_speech = [[1, 1, 0, 2], [0, 0, 0, 0]] \<and>
   ys_hat (projr (forward_body ex_ext ex_model (1 / 4) ex_speech ex_speech_lengths ex_text
            ex_text_lengths (Some ex_src_text) (Some ex_src_text_lengths)))
     = Some ([[1, 2], [3, - 1]], [2, 1]) \<and>
   spec_ctc_sample [[1, 1, 0, 2], [0, 0, 0, 0]] ex_src_text = ([[1, 2], [3, - 1]], [2, 1]) \<and>
   ctc_sample [[1, 1, 0, 2], [0, 0, 0, 0]] ex_src_text = Inr ([[1, 2], [3, - 1]], [2, 1])"
proof -
  define L where "L = projr (forward_body ex_ext ex_model (1 / 4) ex_speech ex_speech_lengths
     ex_text ex_text_lengths (Some ex_src_text) (Some ex_src_text_lengths))"
  have body: "forward_body ex_ext ex_model (1 / 4) ex_speech ex_speech_lengths ex_text
     ex_text_lengths (Some ex_src_text) (Some ex_src_text_lengths) = Inr L"
    using forward_Inr [OF ex_forward_sampled] by (auto simp: L_def)
  have t: "training ex_model" and u: "1 / 4 < ctc_sample_rate ex_model"
    and c: "ctc ex_model = Some ex_ctc"
    by (simp_all add: ex_model_fields ex_args_simps)
  have nl: "\<not> isl (forward_body ex_ext ex_model (1 / 4) ex_speech ex_speech_lengths ex_text
            ex_text_lengths (Some ex_src_text) (Some ex_src_text_lengths))"
    using body by simp
  have am: "ctc_argmax ex_ctc ex_speech = [[1, 1, 0, 2], [0, 0, 0, 0]]"
    by (simp add: ex_ctc_def ex_speech_def)
  have y: "ys_hat L = Some ([[1, 2], [3, - 1]], [2, 1])"
    unfolding L_def by (simp add: eval_simps ex_model_fields)
  have sp: "spec_ctc_sample [[1, 1, 0, 2], [0, 0, 0, 0]] ex_src_text = ([[1, 2], [3, - 1]], [2, 1])"
    by (simp add: spec_ctc_sample_def spec_transcript_def spec_right_pad_def ex_src_text_def)
  have cs: "ctc_sample [[1, 1, 0, 2], [0, 0, 0, 0]] ex_src_text = Inr ([[1, 2], [3, - 1]], [2, 1])"
    by (simp add: ctc_sample_def pad_sequence_def ex_src_text_def)
  show ?thesis
    using sampled_transcript_algorithm [OF body t u] t u nl c am y [unfolded L_def] sp cs
    by - (intro conjI, assumption+)
qed

end
